theory Spec2Isabelle
  imports Complex_Main "HOL-Library.Sublist" "HOL-Library.AList" "HOL-Library.Monad_Syntax"
begin

section \<open>Strings and paths\<close>

text \<open>
  JavaScript strings are modelled as \<^typ>\<open>string\<close>. The string methods the library
  calls are written out: \<^verbatim>\<open>startsWith\<close>, \<^verbatim>\<open>endsWith\<close>,
  \<^verbatim>\<open>substring(n)\<close>, \<^verbatim>\<open>split('/')\<close> and
  \<^verbatim>\<open>replace(/\/$/, '')\<close>.
\<close>

definition startsWith :: "string \<Rightarrow> string \<Rightarrow> bool" where
  "startsWith s p = prefix p s"

definition endsWith :: "string \<Rightarrow> string \<Rightarrow> bool" where
  "endsWith s p = suffix p s"

definition substring :: "string \<Rightarrow> nat \<Rightarrow> string" where
  "substring s n = drop n s"

text \<open>\<^verbatim>\<open>s.replace(/\/$/, '')\<close>: one trailing slash, if there is one, is removed.\<close>

definition stripTrailingSlash :: "string \<Rightarrow> string" where
  "stripTrailingSlash s = (if endsWith s ''/'' then butlast s else s)"

text \<open>\<^verbatim>\<open>s.split('/')\<close>: the pieces between the slashes; the empty string has one empty piece.\<close>

fun split_slash :: "string \<Rightarrow> string list" where
  "split_slash [] = [[]]"
| "split_slash (c # cs) =
     (if c = CHR ''/'' then [] # split_slash cs
      else (case split_slash cs of
              [] \<Rightarrow> [[c]]
            | w # ws \<Rightarrow> (c # w) # ws))"

text \<open>util.ts, \<^verbatim>\<open>splitPath\<close>: \<^verbatim>\<open>path.split('/').filter(Boolean)\<close>.\<close>

definition splitPath :: "string \<Rightarrow> string list" where
  "splitPath p = filter (\<lambda>s. s \<noteq> []) (split_slash p)"

section \<open>Errors\<close>

text \<open>
  Every \<^verbatim>\<open>throw\<close> and every rejected promise is a value of this type. \<open>Error\<close> is a
  plain JavaScript \<^verbatim>\<open>Error\<close> with its message; the others are the run-time's own error
  classes. \<open>IllTyped\<close> stands for a call that the TypeScript compiler refuses (a value of
  the wrong shape for the schema node it is given to). \<open>NotModelled\<close> marks an argument
  on which a function of the run-time is not modelled here.
\<close>

datatype error =
    Error string
  | TypeError string
  | URIError string
  | SyntaxError string
  | RangeError string
  | IllTyped
  | NotModelled

section \<open>The document store\<close>

text \<open>
  The replica is the external collaborator (the \<^verbatim>\<open>earthstar\<close> package); the library
  only calls it. A document carries the fields the library reads.
\<close>

type_synonym bytes = "nat list"

record doc =
  doc_format :: string
  doc_path :: string
  doc_text :: string
  doc_author :: string
  doc_attachmentSize :: "nat option"

datatype attachmentResult =
    AttachmentFound bytes
  | AttachmentUndefined
  | AttachmentIsError error

record replica =
  docs :: "doc list"
  refuses :: "string \<Rightarrow> string \<Rightarrow> string option"
  attachmentOf :: "doc \<Rightarrow> attachmentResult"

datatype ingestEvent =
    IngestSuccess
  | IngestFailure string "error option"

record docToSet =
  set_path :: string
  set_text :: string
  set_attachment :: "bytes option"

text \<open>
  Modelled from the spec: the replica's \<^verbatim>\<open>getLatestDocAtPath(path)\<close>, point lookup of
  the latest document at a path. The store keeps one latest document per path, in its
  own enumeration order.
\<close>

definition getLatestDocAtPath :: "replica \<Rightarrow> string \<Rightarrow> doc option" where
  "getLatestDocAtPath r p = find (\<lambda>d. doc_path d = p) (docs r)"

text \<open>
  Modelled from the spec: the replica's \<^verbatim>\<open>queryDocs({ filter: { pathStartsWith } })\<close>,
  the prefix-range query of documents, in the store's order.
\<close>

definition queryDocs :: "replica \<Rightarrow> string \<Rightarrow> doc list" where
  "queryDocs r pathStartsWith = filter (\<lambda>d. startsWith (doc_path d) pathStartsWith) (docs r)"

record queryFilter =
  pathStartsWith :: "string option"
  pathEndsWith :: "string option"

text \<open>
  Modelled from the spec: the replica's \<^verbatim>\<open>queryPaths({ filter })\<close>, the query of
  paths (no document contents) by prefix and suffix.
\<close>

definition matchesFilter :: "queryFilter \<Rightarrow> string \<Rightarrow> bool" where
  "matchesFilter f p =
     ((case pathStartsWith f of None \<Rightarrow> True | Some s \<Rightarrow> startsWith p s) \<and>
      (case pathEndsWith f of None \<Rightarrow> True | Some s \<Rightarrow> endsWith p s))"

definition queryPaths :: "replica \<Rightarrow> queryFilter \<Rightarrow> string list" where
  "queryPaths r f = filter (matchesFilter f) (map doc_path (docs r))"

text \<open>
  Replacing the latest document at a path, or adding one when the path is new.
\<close>

fun upsert :: "doc \<Rightarrow> doc list \<Rightarrow> doc list" where
  "upsert d [] = [d]"
| "upsert d (x # xs) = (if doc_path x = doc_path d then d # xs else x # upsert d xs)"

text \<open>
  Modelled from the spec: the replica's \<^verbatim>\<open>set(author, { path, text, attachment? })\<close>,
  whose outcome is success or failure with a reason. \<open>refuses r author path\<close> is the
  store's write policy: the reason for which it refuses this author's write at this path,
  if it does.
\<close>

definition replica_set :: "replica \<Rightarrow> string \<Rightarrow> docToSet \<Rightarrow> ingestEvent \<times> replica" where
  "replica_set r author input =
     (case refuses r author (set_path input) of
        Some reason \<Rightarrow> (IngestFailure reason None, r)
      | None \<Rightarrow>
          (IngestSuccess,
           r\<lparr>docs := upsert \<lparr>doc_format = ''es.5'', doc_path = set_path input,
                               doc_text = set_text input, doc_author = author,
                               doc_attachmentSize = map_option length (set_attachment input)\<rparr>
                             (docs r)\<rparr>))"

text \<open>
  Modelled from the spec: the replica's \<^verbatim>\<open>wipeDocAtPath(author, path)\<close>, which
  clears the document at a path: its text becomes the empty string (the store's sentinel
  for an absent document) and it holds no attachment. Where no document exists at the
  path, or the store refuses the author, nothing changes and the outcome is a failure.
\<close>

definition wiped :: "string \<Rightarrow> doc \<Rightarrow> doc" where
  "wiped author d = d\<lparr>doc_text := [], doc_author := author, doc_attachmentSize := None\<rparr>"

definition wipeDocAtPath :: "replica \<Rightarrow> string \<Rightarrow> string \<Rightarrow> ingestEvent \<times> replica" where
  "wipeDocAtPath r author p =
     (case getLatestDocAtPath r p of
        None \<Rightarrow> (IngestFailure ''no latest document at path'' None, r)
      | Some d \<Rightarrow>
          (case refuses r author p of
             Some reason \<Rightarrow> (IngestFailure reason None, r)
           | None \<Rightarrow>
               (IngestSuccess,
                r\<lparr>docs := upsert (wiped author d) (docs r)\<rparr>)))"

section \<open>util.ts\<close>

text \<open>
  A call that may throw returns \<open>error + 'a\<close>. \<^verbatim>\<open>requireWriteSuccess\<close> throws
  \<^verbatim>\<open>event.err ?? new Error(event.reason)\<close> on a failure.
\<close>

fun requireWriteSuccess :: "ingestEvent \<Rightarrow> error + unit" where
  "requireWriteSuccess (IngestFailure reason err) =
     Inl (case err of Some e \<Rightarrow> e | None \<Rightarrow> Error reason)"
| "requireWriteSuccess IngestSuccess = Inr ()"

text \<open>
  \<^verbatim>\<open>wipeDocsUnderPath\<close>: query the paths that start with \<^verbatim>\<open>path + '/'\<close>, wipe each
  of them, then wipe the path itself. The outcomes of the wipes are discarded. The wipes
  are issued together (\<^verbatim>\<open>Promise.all\<close>); they are run here in the order of the array.
\<close>

definition wipeAll :: "replica \<Rightarrow> string \<Rightarrow> string list \<Rightarrow> replica" where
  "wipeAll r identity ps = fold (\<lambda>p r'. snd (wipeDocAtPath r' identity p)) ps r"

definition wipeDocsUnderPath :: "replica \<Rightarrow> string \<Rightarrow> string \<Rightarrow> replica" where
  "wipeDocsUnderPath r identity p =
     (let subpaths = queryPaths r \<lparr>pathStartsWith = Some (p @ ''/''), pathEndsWith = None\<rparr>
      in wipeAll r identity (subpaths @ [p]))"

section \<open>type.ts: reading through a schema node\<close>

text \<open>
  \<^verbatim>\<open>EsType.getContentPrefix\<close> and \<^verbatim>\<open>EsType.read\<close>. The node's own
  \<^verbatim>\<open>reduce\<close> is the parameter \<open>schemaReduce\<close>: it takes the replica, the document, the
  path components and the previous value (\<open>None\<close> is \<^verbatim>\<open>null\<close>) and returns the
  new value, or throws.
\<close>

type_synonym 'v reducer = "replica \<Rightarrow> doc \<Rightarrow> string list \<Rightarrow> 'v option \<Rightarrow> error + 'v option"

definition getContentPrefix :: "string \<Rightarrow> string" where
  "getContentPrefix p = (if endsWith p ''/'' then p @ ''/'' else p)"

text \<open>The array \<^verbatim>\<open>[root, ...contents]\<close> that \<^verbatim>\<open>read\<close> iterates over.\<close>

definition readDocs :: "replica \<Rightarrow> string \<Rightarrow> doc option list" where
  "readDocs r p =
     (let contentsPrefix = getContentPrefix p;
          root = getLatestDocAtPath r (stripTrailingSlash contentsPrefix);
          contents = queryDocs r contentsPrefix
      in root # map Some contents)"

fun readLoop :: "'v reducer \<Rightarrow> replica \<Rightarrow> string \<Rightarrow> doc option list \<Rightarrow> 'v option
                   \<Rightarrow> error + 'v option" where
  "readLoop schemaReduce r contentsPrefix [] result = Inr result"
| "readLoop schemaReduce r contentsPrefix (None # ds) result = readLoop schemaReduce r contentsPrefix ds result"
| "readLoop schemaReduce r contentsPrefix (Some d # ds) result =
     (case schemaReduce r d (splitPath (substring (doc_path d) (length contentsPrefix))) result of
        Inl e \<Rightarrow> Inl e
      | Inr result' \<Rightarrow> readLoop schemaReduce r contentsPrefix ds result')"

definition read :: "'v reducer \<Rightarrow> replica \<Rightarrow> string \<Rightarrow> error + 'v option" where
  "read schemaReduce r p = readLoop schemaReduce r (getContentPrefix p) (readDocs r p) None"

section \<open>The run-time\<close>

text \<open>
  A JavaScript number: \<^verbatim>\<open>NaN\<close>, one of the infinities, the negative zero, or a
  finite value (\<open>Finite 0\<close> is the positive zero). Of the rationals, those that a
  double-precision float holds stand for a number.
\<close>

datatype jsNumber =
    NaN
  | Infinity
  | NegativeInfinity
  | NegativeZero
  | Finite rat

definition isNaN :: "jsNumber \<Rightarrow> bool" where
  "isNaN x = (x = NaN)"

text \<open>
  \<^verbatim>\<open>x > y\<close> on numbers: false when either is \<^verbatim>\<open>NaN\<close>; the two zeros are
  equal.
\<close>

fun greaterThan :: "jsNumber \<Rightarrow> jsNumber \<Rightarrow> bool" where
  "greaterThan NaN y = False"
| "greaterThan x NaN = False"
| "greaterThan x Infinity = False"
| "greaterThan Infinity y = True"
| "greaterThan NegativeInfinity y = False"
| "greaterThan x NegativeInfinity = True"
| "greaterThan NegativeZero NegativeZero = False"
| "greaterThan NegativeZero (Finite b) = (0 > b)"
| "greaterThan (Finite a) NegativeZero = (a > 0)"
| "greaterThan (Finite a) (Finite b) = (a > b)"

text \<open>
  The functions of the run-time that the library calls and that are not written out
  here are parameters of the model: \<^verbatim>\<open>encodeURIComponent\<close>,
  \<^verbatim>\<open>decodeURIComponent\<close> (which throws a \<^verbatim>\<open>URIError\<close> on a malformed
  escape), \<^verbatim>\<open>String\<close> on a number (\<open>numberToString\<close>, also what a template
  literal does to a number) and \<^verbatim>\<open>Number\<close> on a string (\<open>stringToNumber\<close>). The
  last two convert between a float and its decimal text; neither throws.
\<close>

record runtime =
  encodeURIComponent :: "string \<Rightarrow> string"
  decodeURIComponent :: "string \<Rightarrow> error + string"
  numberToString :: "jsNumber \<Rightarrow> string"
  stringToNumber :: "string \<Rightarrow> jsNumber"

section \<open>atoms.ts\<close>

text \<open>
  An \<^verbatim>\<open>Atom<T>\<close> is built from a codec. Its functions are the run-time's or the
  caller's, so each may throw.
\<close>

record 'a codec =
  encode :: "'a \<Rightarrow> error + string"
  decode :: "string \<Rightarrow> error + 'a"

definition Atom_reduce :: "'a codec \<Rightarrow> doc \<Rightarrow> error + 'a option" where
  "Atom_reduce c d =
     (if doc_text d = [] then Inr None
      else (case decode c (doc_text d) of Inl e \<Rightarrow> Inl e | Inr x \<Rightarrow> Inr (Some x)))"

text \<open>
  A write returns how its promise settled together with the replica as the write left
  it: a rejected write may have changed the store before it failed.
\<close>

definition Atom_write :: "'a codec \<Rightarrow> replica \<Rightarrow> string \<Rightarrow> string \<Rightarrow> 'a option
                             \<Rightarrow> (error + unit) \<times> replica" where
  "Atom_write c r author p data =
     (case (case data of None \<Rightarrow> Inr [] | Some x \<Rightarrow> encode c x) of
        Inl e \<Rightarrow> (Inl e, r)
      | Inr t \<Rightarrow>
          (let (event, r') = replica_set r author
                               \<lparr>set_path = p, set_text = t, set_attachment = None\<rparr>
           in (requireWriteSuccess event, r')))"

text \<open>\<^verbatim>\<open>read\<close> of an atom: the inherited \<^verbatim>\<open>EsType.read\<close> with the atom's reduce,
  which looks at the document only.\<close>

definition Atom_read :: "'a codec \<Rightarrow> replica \<Rightarrow> string \<Rightarrow> error + 'a option" where
  "Atom_read c = read (\<lambda>r d pathComponents prev. Atom_reduce c d)"

text \<open>The built-in atoms \<^verbatim>\<open>string\<close> and \<^verbatim>\<open>boolean\<close>.\<close>

definition string :: "string codec" where
  "string = \<lparr>encode = (\<lambda>x. Inr x), decode = (\<lambda>x. Inr x)\<rparr>"


section \<open>atoms.ts: the numeric atoms\<close>

text \<open>
  \<^verbatim>\<open>String\<close> of an integer writes it in decimal, with a minus sign when it is
  negative.
\<close>

definition digitChar :: "nat \<Rightarrow> char" where
  "digitChar n = char_of (48 + n)"

definition digitValue :: "char \<Rightarrow> nat option" where
  "digitValue c =
     (let n = (of_char c :: nat) in if 48 \<le> n \<and> n \<le> 57 then Some (n - 48) else None)"

function digitsOf :: "nat \<Rightarrow> string" where
  "digitsOf n = (if n < 10 then [digitChar n] else digitsOf (n div 10) @ [digitChar (n mod 10)])"
  by pat_completeness auto
termination
  by (relation "measure id") auto

declare digitsOf.simps [simp del]

definition decimalString :: "int \<Rightarrow> string" where
  "decimalString i = (if i < 0 then CHR ''-'' # digitsOf (nat (- i)) else digitsOf (nat i))"

text \<open>
  Reading a decimal integer literal: one or more digits, after an optional sign. The empty
  text reads as zero, as both \<^verbatim>\<open>Number('')\<close> and \<^verbatim>\<open>BigInt('')\<close> do.
\<close>

fun parseDigits :: "nat \<Rightarrow> string \<Rightarrow> nat option" where
  "parseDigits acc [] = Some acc"
| "parseDigits acc (c # cs) =
     (case digitValue c of None \<Rightarrow> None | Some d \<Rightarrow> parseDigits (10 * acc + d) cs)"

definition parseNat :: "string \<Rightarrow> nat option" where
  "parseNat s = (if s = [] then None else parseDigits 0 s)"

definition parseInteger :: "string \<Rightarrow> int option" where
  "parseInteger s =
     (case s of
        [] \<Rightarrow> Some 0
      | c # cs \<Rightarrow>
          if c = CHR ''-'' then map_option (\<lambda>n. - int n) (parseNat cs)
          else if c = CHR ''+'' then map_option int (parseNat cs)
          else map_option int (parseNat s))"


text \<open>
  \<^verbatim>\<open>number\<close>: the codec is the run-time's \<^verbatim>\<open>String\<close> and
  \<^verbatim>\<open>Number\<close>.
\<close>

definition number :: "runtime \<Rightarrow> jsNumber codec" where
  "number js = \<lparr>encode = (\<lambda>x. Inr (numberToString js x)),
                decode = (\<lambda>x. Inr (stringToNumber js x))\<rparr>"

section \<open>atoms.ts: the date-time atom\<close>

text \<open>
  A JavaScript \<^verbatim>\<open>Date\<close> holds a time value: the milliseconds since the epoch, of
  magnitude at most \<open>8.64 * 10^15\<close>, or \<^verbatim>\<open>NaN\<close> (an invalid date).
\<close>

datatype jsDate =
    Date int
  | InvalidDate

definition validTime :: "int \<Rightarrow> bool" where
  "validTime t = (\<bar>t\<bar> \<le> 8640000000000000)"

text \<open>
  The day and year arithmetic of ECMA-262 (section 21.4.1), on integers: \<open>div\<close> and
  \<open>mod\<close> round towards minus infinity, as its \<^verbatim>\<open>floor\<close> and \<^verbatim>\<open>modulo\<close> do.
\<close>

definition msPerDay :: int where
  "msPerDay = 86400000"

definition daysInYear :: "int \<Rightarrow> int" where
  "daysInYear y =
     (if y mod 4 \<noteq> 0 then 365
      else if y mod 100 \<noteq> 0 then 366
      else if y mod 400 \<noteq> 0 then 365
      else 366)"

definition dayFromYear :: "int \<Rightarrow> int" where
  "dayFromYear y =
     365 * (y - 1970) + (y - 1969) div 4 - (y - 1901) div 100 + (y - 1601) div 400"

text \<open>
  \<^verbatim>\<open>YearFromTime\<close>: the largest year that starts on or before the day. It is computed
  from the mean length of a year (146097 days in 400 years), which is off by one year at
  most.
\<close>

definition yearFromDay :: "int \<Rightarrow> int" where
  "yearFromDay d =
     (let y = 1970 + (400 * d) div 146097
      in if d < dayFromYear y then y - 1
         else if dayFromYear (y + 1) \<le> d then y + 1
         else y)"

definition inLeapYear :: "int \<Rightarrow> int" where
  "inLeapYear y = (if daysInYear y = 366 then 1 else 0)"

text \<open>
  The day within the year on which each month starts (months count from 0), and
  \<^verbatim>\<open>MonthFromTime\<close>, the month a day within the year falls in; \<open>leap\<close> is 1 in a
  leap year and 0 otherwise.
\<close>

definition monthStart :: "int \<Rightarrow> int \<Rightarrow> int" where
  "monthStart m leap =
     (if m \<le> 0 then 0
      else if m = 1 then 31
      else if m = 2 then 59 + leap
      else if m = 3 then 90 + leap
      else if m = 4 then 120 + leap
      else if m = 5 then 151 + leap
      else if m = 6 then 181 + leap
      else if m = 7 then 212 + leap
      else if m = 8 then 243 + leap
      else if m = 9 then 273 + leap
      else if m = 10 then 304 + leap
      else if m = 11 then 334 + leap
      else 365 + leap)"

definition monthFromDay :: "int \<Rightarrow> int \<Rightarrow> int" where
  "monthFromDay dayWithinYear leap =
     (if dayWithinYear < 31 then 0
      else if dayWithinYear < 59 + leap then 1
      else if dayWithinYear < 90 + leap then 2
      else if dayWithinYear < 120 + leap then 3
      else if dayWithinYear < 151 + leap then 4
      else if dayWithinYear < 181 + leap then 5
      else if dayWithinYear < 212 + leap then 6
      else if dayWithinYear < 243 + leap then 7
      else if dayWithinYear < 273 + leap then 8
      else if dayWithinYear < 304 + leap then 9
      else if dayWithinYear < 334 + leap then 10
      else 11)"

text \<open>Decimal digits padded with zeros to a width.\<close>

definition pad :: "nat \<Rightarrow> nat \<Rightarrow> string" where
  "pad w n = replicate (w - length (digitsOf n)) CHR ''0'' @ digitsOf n"

text \<open>
  The year of the date-time string format: four digits from 0 to 9999, and a sign and six
  digits otherwise.
\<close>

definition yearString :: "int \<Rightarrow> string" where
  "yearString y =
     (if 0 \<le> y \<and> y \<le> 9999 then pad 4 (nat y)
      else (if y < 0 then CHR ''-'' else CHR ''+'') # pad 6 (nat \<bar>y\<bar>))"

text \<open>
  \<^verbatim>\<open>Date.prototype.toISOString\<close> of a time value:
  \<^verbatim>\<open>YYYY-MM-DDTHH:mm:ss.sssZ\<close> in UTC.
\<close>

definition isoString :: "int \<Rightarrow> string" where
  "isoString t =
     (let day = t div msPerDay;
          time = t mod msPerDay;
          y = yearFromDay day;
          dayWithinYear = day - dayFromYear y;
          m = monthFromDay dayWithinYear (inLeapYear y);
          date = dayWithinYear - monthStart m (inLeapYear y) + 1
      in yearString y @ ''-'' @ pad 2 (nat (m + 1)) @ ''-'' @ pad 2 (nat date) @ ''T'' @
         pad 2 (nat (time div 3600000)) @ '':'' @ pad 2 (nat (time div 60000 mod 60)) @ '':'' @
         pad 2 (nat (time div 1000 mod 60)) @ ''.'' @ pad 3 (nat (time mod 1000)) @ ''Z'')"

text \<open>Reading the format: a number of a fixed count of digits, and a literal character.\<close>

definition digitsField :: "nat \<Rightarrow> string \<Rightarrow> (nat \<times> string) option" where
  "digitsField w s =
     (if length s < w then None
      else map_option (\<lambda>n. (n, drop w s)) (parseDigits 0 (take w s)))"

definition literal :: "char \<Rightarrow> string \<Rightarrow> string option" where
  "literal c s = (case s of [] \<Rightarrow> None | x # xs \<Rightarrow> if x = c then Some xs else None)"

definition yearField :: "string \<Rightarrow> (int \<times> string) option" where
  "yearField s =
     (case s of
        [] \<Rightarrow> None
      | c # cs \<Rightarrow>
          if c = CHR ''+'' then map_option (\<lambda>(n, rest). (int n, rest)) (digitsField 6 cs)
          else if c = CHR ''-''
          then (case digitsField 6 cs of
                  None \<Rightarrow> None
                | Some (n, rest) \<Rightarrow> if n = 0 then None else Some (- int n, rest))
          else map_option (\<lambda>(n, rest). (int n, rest)) (digitsField 4 s))"

text \<open>
  \<^verbatim>\<open>MakeDay\<close>, \<^verbatim>\<open>MakeTime\<close>, \<^verbatim>\<open>MakeDate\<close> and \<^verbatim>\<open>TimeClip\<close> on the fields
  of a calendar date and a time of day within their ranges.
\<close>

definition makeDay :: "int \<Rightarrow> int \<Rightarrow> int \<Rightarrow> int" where
  "makeDay y m date = dayFromYear y + monthStart m (inLeapYear y) + date - 1"

definition makeTime :: "int \<Rightarrow> int \<Rightarrow> int \<Rightarrow> int \<Rightarrow> int" where
  "makeTime h mi s ms = h * 3600000 + mi * 60000 + s * 1000 + ms"

definition timeClip :: "int \<Rightarrow> jsDate" where
  "timeClip t = (if validTime t then Date t else InvalidDate)"

definition fieldsInRange :: "int \<Rightarrow> int \<Rightarrow> int \<Rightarrow> int \<Rightarrow> int \<Rightarrow> int \<Rightarrow> bool" where
  "fieldsInRange y month date h mi s =
     (1 \<le> month \<and> month \<le> 12 \<and> 1 \<le> date \<and>
      date \<le> monthStart month (inLeapYear y) - monthStart (month - 1) (inLeapYear y) \<and>
      h \<le> 23 \<and> mi \<le> 59 \<and> s \<le> 59)"

text \<open>
  \<^verbatim>\<open>new Date(text)\<close> on the complete form of the date-time string format with the
  UTC designator, every field within its range. What the run-time makes of any other
  text (shorter forms, offsets, fields out of range, the formats it accepts beyond the
  standard one) is not modelled: the result is \<open>None\<close>.
\<close>

definition dateFields :: "string \<Rightarrow> ((int \<times> nat \<times> nat) \<times> string) option" where
  "dateFields s0 =
     yearField s0 \<bind> (\<lambda>(y, s1).
     literal CHR ''-'' s1 \<bind> (\<lambda>s2.
     digitsField 2 s2 \<bind> (\<lambda>(month, s3).
     literal CHR ''-'' s3 \<bind> (\<lambda>s4.
     digitsField 2 s4 \<bind> (\<lambda>(date, s5).
     Some ((y, month, date), s5))))))"

definition timeFields :: "string \<Rightarrow> ((nat \<times> nat \<times> nat \<times> nat) \<times> string) option" where
  "timeFields s6 =
     digitsField 2 s6 \<bind> (\<lambda>(h, s7).
     literal CHR '':'' s7 \<bind> (\<lambda>s8.
     digitsField 2 s8 \<bind> (\<lambda>(mi, s9).
     literal CHR '':'' s9 \<bind> (\<lambda>s10.
     digitsField 2 s10 \<bind> (\<lambda>(s, s11).
     literal CHR ''.'' s11 \<bind> (\<lambda>s12.
     digitsField 3 s12 \<bind> (\<lambda>(ms, s13).
     Some ((h, mi, s, ms), s13))))))))"

definition parseIsoString :: "string \<Rightarrow> jsDate option" where
  "parseIsoString s0 =
     dateFields s0 \<bind> (\<lambda>((y, month, date), s5).
     literal CHR ''T'' s5 \<bind> (\<lambda>s6.
     timeFields s6 \<bind> (\<lambda>((h, mi, s, ms), s13).
     if s13 \<noteq> ''Z'' then None
     else if \<not> fieldsInRange y (int month) (int date) (int h) (int mi) (int s) then None
     else Some (timeClip (makeDay y (int month - 1) (int date) * msPerDay
                            + makeTime (int h) (int mi) (int s) (int ms))))))"


section \<open>Writing an atom and reading it back\<close>

definition writeThenRead :: "'a codec \<Rightarrow> replica \<Rightarrow> string \<Rightarrow> string \<Rightarrow> 'a
                               \<Rightarrow> (error + unit) \<times> (error + 'a option)" where
  "writeThenRead c r author p x =
     (let (res, r') = Atom_write c r author p (Some x) in (res, Atom_read c r' p))"

section \<open>Values\<close>

text \<open>
  The values a schema tree reads and writes. \<open>'a\<close> is the type of the atomic values of
  the tree. An attachment value is its metadata string and its bytes, a \<^verbatim>\<open>Blob\<close>
  its bytes and its type. \<open>Obj\<close> is a plain JavaScript object (its prototype is
  \<^verbatim>\<open>Object.prototype\<close>): the list of its own enumerable properties in the order
  in which they were added, each holding a value or \<^verbatim>\<open>null\<close> (\<open>None\<close>).
  \<open>Inheriting\<close> is an object with another prototype: its own properties and the
  prototype, \<open>None\<close> for \<^verbatim>\<open>null\<close>. \<open>Builtin m\<close> is the member named \<open>m\<close> of
  \<^verbatim>\<open>Object.prototype\<close>: a function of the run-time, and for \<^verbatim>\<open>__proto__\<close> the
  object \<^verbatim>\<open>Object.prototype\<close> itself. (The run-time lists the properties whose
  names are array indices first; that order is not modelled.)
\<close>

datatype 'a val =
    Atomic 'a
  | Attached string bytes
  | Blob bytes string
  | Obj "(string \<times> 'a val option) list"
  | Inheriting "(string \<times> 'a val option) list" "'a val option"
  | Builtin string

text \<open>
  The names of the members of \<^verbatim>\<open>Object.prototype\<close>: those of ECMA-262 section
  20.1.3 and of its annex B. A plain object that has no own property of such a name
  inherits the member.
\<close>

definition objectPrototypeKeys :: "string list" where
  "objectPrototypeKeys =
     [''constructor'', ''hasOwnProperty'', ''isPrototypeOf'', ''propertyIsEnumerable'',
      ''toLocaleString'', ''toString'', ''valueOf'', ''__proto__'', ''__defineGetter__'',
      ''__defineSetter__'', ''__lookupGetter__'', ''__lookupSetter__'']"

text \<open>
  The own enumerable properties that \<^verbatim>\<open>Object.assign({}, prev)\<close> and
  \<^verbatim>\<open>{...prev}\<close> copy: none for \<^verbatim>\<open>null\<close>, \<^verbatim>\<open>undefined\<close> and a member
  of \<^verbatim>\<open>Object.prototype\<close>. TypeScript types \<^verbatim>\<open>prev\<close> of an object or a
  collection as an object, so the other values are \<open>IllTyped\<close> here.
\<close>

fun ownProperties :: "'a val option \<Rightarrow> error + (string \<times> 'a val option) list" where
  "ownProperties None = Inr []"
| "ownProperties (Some (Obj kvs)) = Inr kvs"
| "ownProperties (Some (Inheriting kvs proto)) = Inr kvs"
| "ownProperties (Some (Builtin m)) = Inr []"
| "ownProperties (Some v) = Inl IllTyped"

text \<open>
  \<^verbatim>\<open>object[key]\<close>: the own property if there is one, and otherwise what the
  prototype chain holds: for a plain object the member of \<^verbatim>\<open>Object.prototype\<close>
  with that name. \<open>None\<close> is \<^verbatim>\<open>undefined\<close> or \<^verbatim>\<open>null\<close>. The properties of
  the members of \<^verbatim>\<open>Object.prototype\<close>, and the accessor \<^verbatim>\<open>__proto__\<close> on an
  object with another prototype, are not modelled.
\<close>

fun propertyOf :: "'a val \<Rightarrow> string \<Rightarrow> error + 'a val option" where
  "propertyOf (Obj kvs) key =
     (case map_of kvs key of
        Some v \<Rightarrow> Inr v
      | None \<Rightarrow> if key \<in> set objectPrototypeKeys then Inr (Some (Builtin key)) else Inr None)"
| "propertyOf (Inheriting kvs proto) key =
     (case map_of kvs key of
        Some v \<Rightarrow> Inr v
      | None \<Rightarrow>
          if key = ''__proto__'' then Inl NotModelled
          else (case proto of None \<Rightarrow> Inr None | Some v \<Rightarrow> propertyOf v key))"
| "propertyOf (Builtin m) key = Inl NotModelled"
| "propertyOf v key = Inl IllTyped"

text \<open>\<^verbatim>\<open>prev?.[key]\<close>.\<close>

definition getProperty :: "'a val option \<Rightarrow> string \<Rightarrow> error + 'a val option" where
  "getProperty prev key = (case prev of None \<Rightarrow> Inr None | Some v \<Rightarrow> propertyOf v key)"

text \<open>
  \<^verbatim>\<open>Object.assign(target, source)\<close> sets each own enumerable property of the source
  on the target, in order. Setting \<^verbatim>\<open>__proto__\<close> on a plain object runs the setter
  that \<^verbatim>\<open>Object.prototype\<close> provides: no own property is made, and the value, when
  it is an object or \<^verbatim>\<open>null\<close>, becomes the prototype of the target. Every other
  key becomes an own property. (An atomic value as the new prototype, and a second
  \<^verbatim>\<open>__proto__\<close> in the source, are not modelled.)
\<close>

fun assign :: "'a val \<Rightarrow> (string \<times> 'a val option) list \<Rightarrow> error + 'a val" where
  "assign target [] = Inr target"
| "assign (Obj own) ((key, v) # source) =
     (if key = ''__proto__''
      then (case v of
              None \<Rightarrow> assign (Inheriting own None) source
            | Some (Obj kvs) \<Rightarrow> assign (Inheriting own v) source
            | Some (Inheriting kvs proto) \<Rightarrow> assign (Inheriting own v) source
            | Some _ \<Rightarrow> Inl NotModelled)
      else assign (Obj (AList.update key v own)) source)"
| "assign (Inheriting own proto) ((key, v) # source) =
     (if key = ''__proto__'' then Inl NotModelled
      else assign (Inheriting (AList.update key v own) proto) source)"
| "assign target ((key, v) # source) = Inl IllTyped"

text \<open>\<^verbatim>\<open>delete next[key]\<close>: the own property goes, if there is one.\<close>

fun deleteProperty :: "'a val \<Rightarrow> string \<Rightarrow> 'a val" where
  "deleteProperty (Obj own) key = Obj (AList.delete key own)"
| "deleteProperty (Inheriting own proto) key = Inheriting (AList.delete key own) proto"
| "deleteProperty v key = v"

text \<open>
  util.ts, \<^verbatim>\<open>isEmptyObject\<close>: \<^verbatim>\<open>for (const _ in object) return false\<close>. The
  loop runs over the enumerable properties of the object and of its prototypes; those of
  \<^verbatim>\<open>Object.prototype\<close> and of its members are not enumerable.
\<close>

fun isEmptyObject :: "'a val \<Rightarrow> error + bool" where
  "isEmptyObject (Obj own) = Inr (own = [])"
| "isEmptyObject (Inheriting own proto) =
     (if own \<noteq> [] then Inr False
      else (case proto of None \<Rightarrow> Inr True | Some v \<Rightarrow> isEmptyObject v))"
| "isEmptyObject (Builtin m) = Inr True"
| "isEmptyObject v = Inl IllTyped"

text \<open>
  The block both \<^verbatim>\<open>ObjectType.reduce\<close> and \<^verbatim>\<open>CollectionType.reduce\<close> run when
  a key goes away: \<^verbatim>\<open>next = Object.assign({}, prev ?? {})\<close>,
  \<^verbatim>\<open>delete next[key]\<close>, return \<^verbatim>\<open>null\<close> if \<^verbatim>\<open>isEmptyObject(next)\<close> and
  \<^verbatim>\<open>next\<close> otherwise.
\<close>

definition deleteKey :: "'a val option \<Rightarrow> string \<Rightarrow> error + 'a val option" where
  "deleteKey prev key =
     (case ownProperties prev of
        Inl e \<Rightarrow> Inl e
      | Inr source \<Rightarrow>
          (case assign (Obj []) source of
             Inl e \<Rightarrow> Inl e
           | Inr copy \<Rightarrow>
               (let next = deleteProperty copy key
                in case isEmptyObject next of
                     Inl e \<Rightarrow> Inl e
                   | Inr True \<Rightarrow> Inr None
                   | Inr False \<Rightarrow> Inr (Some next))))"

text \<open>
  \<^verbatim>\<open>{ ...prev, [key]: val }\<close>: a plain object with the own enumerable properties of
  \<^verbatim>\<open>prev\<close> and the property \<^verbatim>\<open>key\<close>. The properties are defined, not set: a
  key \<^verbatim>\<open>__proto__\<close> becomes an own property like any other.
\<close>

definition spreadWith :: "'a val option \<Rightarrow> string \<Rightarrow> 'a val \<Rightarrow> error + 'a val option" where
  "spreadWith prev key v =
     (case ownProperties prev of
        Inl e \<Rightarrow> Inl e
      | Inr source \<Rightarrow> Inr (Some (Obj (AList.update key (Some v) source))))"

section \<open>Schema nodes\<close>

text \<open>\<^verbatim>\<open>ApplicationFormat\<close>, the format of an \<^verbatim>\<open>AppFormatType\<close>.\<close>

record applicationFormat =
  namespace :: string
  major :: jsNumber
  minor :: jsNumber

text \<open>
  The schema nodes: \<^verbatim>\<open>Atom\<close> (atoms.ts), \<^verbatim>\<open>AttachmentType\<close> and
  \<^verbatim>\<open>BlobAttachmentType\<close> (attachment.ts), \<^verbatim>\<open>MetadataType\<close> with the reduce
  function it is constructed with, \<^verbatim>\<open>ObjectType\<close> with its shape (a record from
  keys to nodes or \<^verbatim>\<open>undefined\<close>, object.ts), \<^verbatim>\<open>CollectionType\<close> with its
  value type (collection.ts) and \<^verbatim>\<open>AppFormatType\<close> with the schema it wraps, its
  format and its prefix.
\<close>

datatype 'a esType =
    Atom "'a codec"
  | AttachmentType
  | BlobAttachmentType
  | MetadataType "'a val reducer"
  | ObjectType "(string \<times> 'a esType option) list"
  | CollectionType "'a esType"
  | AppFormatType "'a esType" applicationFormat string

definition SELF_SIGIL :: string where
  "SELF_SIGIL = ''@self''"

text \<open>
  The shape is a plain object, so \<^verbatim>\<open>this.shape[attrKey]\<close> finds an own property
  first and a member of \<^verbatim>\<open>Object.prototype\<close> otherwise.
\<close>

datatype 'a shapeProperty =
    Schema 'a
  | PrototypeMember string
  | Undefined

definition shapeProperty :: "(string \<times> 'a option) list \<Rightarrow> string \<Rightarrow> 'a shapeProperty" where
  "shapeProperty shape key =
     (case map_of shape key of
        Some (Some attrSchema) \<Rightarrow> Schema attrSchema
      | Some None \<Rightarrow> Undefined
      | None \<Rightarrow> if key \<in> set objectPrototypeKeys then PrototypeMember key else Undefined)"

lemma shapeProperty_size:
  "shapeProperty shape key = Schema t
   \<Longrightarrow> size t < Suc (size_list (size_prod (\<lambda>_. 0) (size_option size)) shape)"
proof -
  assume "shapeProperty shape key = Schema t"
  then have "map_of shape key = Some (Some t)"
    by (auto simp: shapeProperty_def split: option.splits if_splits)
  then have "(key, Some t) \<in> set shape"
    by (rule map_of_SomeD)
  then show ?thesis
    by (induction shape) auto
qed

text \<open>
  The destructuring of \<^verbatim>\<open>pathComponents\<close>:
  \<^verbatim>\<open>[attrKey = SELF_SIGIL, ...remainingPath]\<close> in \<^verbatim>\<open>ObjectType.reduce\<close> and
  \<^verbatim>\<open>[rawKey, ...remainingPath]\<close> in \<^verbatim>\<open>CollectionType.reduce\<close>, where
  \<^verbatim>\<open>decodeURIComponent\<close> turns an \<^verbatim>\<open>undefined\<close> \<^verbatim>\<open>rawKey\<close> into the string
  \<^verbatim>\<open>undefined\<close>.
\<close>

definition attrKeyOf :: "string list \<Rightarrow> string" where
  "attrKeyOf pathComponents = (case pathComponents of [] \<Rightarrow> SELF_SIGIL | k # _ \<Rightarrow> k)"

definition rawKeyOf :: "string list \<Rightarrow> string" where
  "rawKeyOf pathComponents = (case pathComponents of [] \<Rightarrow> ''undefined'' | k # _ \<Rightarrow> k)"

definition remainingPath :: "string list \<Rightarrow> string list" where
  "remainingPath pathComponents = drop 1 pathComponents"

text \<open>
  \<^verbatim>\<open>AttachmentType.reduce\<close>: the metadata and the attachment, \<^verbatim>\<open>null\<close> when
  the replica does not hold the attachment; an error that the replica answers with is
  thrown.
\<close>

definition Attachment_reduce :: "replica \<Rightarrow> doc \<Rightarrow> error + (string \<times> bytes) option" where
  "Attachment_reduce r d =
     (case attachmentOf r d of
        AttachmentIsError e \<Rightarrow> Inl e
      | AttachmentUndefined \<Rightarrow> Inr None
      | AttachmentFound a \<Rightarrow> Inr (Some (doc_text d, a)))"

text \<open>
  The type of a \<^verbatim>\<open>new Blob(parts, { type })\<close>: the given type in lower case, and
  the empty string when it holds a character outside the range U+0020 to U+007E.
\<close>

definition toLowerCase :: "char \<Rightarrow> char" where
  "toLowerCase c =
     (let n = (of_char c :: nat) in if 65 \<le> n \<and> n \<le> 90 then char_of (n + 32) else c)"

definition blobType :: "string \<Rightarrow> string" where
  "blobType t =
     (if \<forall>c \<in> set t. 32 \<le> (of_char c :: nat) \<and> (of_char c :: nat) \<le> 126
      then map toLowerCase t else [])"

text \<open>
  \<^verbatim>\<open>AppFormatType.reduce\<close>: \<^verbatim>\<open>Number(minorVersionStr)\<close>, which is
  \<^verbatim>\<open>NaN\<close> when there is no path component, and the walk of the iterator over the
  components of the prefix, which leaves the components after the prefix or stops at
  the first that differs.
\<close>

definition minorVersionOf :: "runtime \<Rightarrow> string list \<Rightarrow> jsNumber" where
  "minorVersionOf js pathComponents =
     (case pathComponents of
        [] \<Rightarrow> NaN
      | minorVersionStr # restPath \<Rightarrow> stringToNumber js minorVersionStr)"

fun afterPrefix :: "string list \<Rightarrow> string list \<Rightarrow> string list option" where
  "afterPrefix [] iterRest = Some iterRest"
| "afterPrefix (prefixComponent # prefixComponents) [] = None"
| "afterPrefix (prefixComponent # prefixComponents) (item # iterRest) =
     (if item \<noteq> prefixComponent then None else afterPrefix prefixComponents iterRest)"

function reduce :: "runtime \<Rightarrow> 'a esType \<Rightarrow> 'a val reducer" where
  "reduce js (Atom c) r d pathComponents prev =
     (case Atom_reduce c d of Inl e \<Rightarrow> Inl e | Inr x \<Rightarrow> Inr (map_option Atomic x))"
| "reduce js AttachmentType r d pathComponents prev =
     (case Attachment_reduce r d of
        Inl e \<Rightarrow> Inl e
      | Inr None \<Rightarrow> Inr None
      | Inr (Some (metadata, attachment)) \<Rightarrow> Inr (Some (Attached metadata attachment)))"
| "reduce js BlobAttachmentType r d pathComponents prev =
     (case Attachment_reduce r d of
        Inl e \<Rightarrow> Inl e
      | Inr None \<Rightarrow> Inr None
      | Inr (Some (metadata, attachment)) \<Rightarrow> Inr (Some (Blob attachment (blobType metadata))))"
| "reduce js (MetadataType f) r d pathComponents prev = f r d pathComponents prev"
| "reduce js (ObjectType shape) r d pathComponents prev =
     (case shapeProperty shape (attrKeyOf pathComponents) of
        Undefined \<Rightarrow> Inr prev
      | PrototypeMember m \<Rightarrow> Inl (TypeError ''attrSchema.reduce is not a function'')
      | Schema attrSchema \<Rightarrow>
          (case getProperty prev (attrKeyOf pathComponents) of
             Inl e \<Rightarrow> Inl e
           | Inr prevAttr \<Rightarrow>
               (case reduce js attrSchema r d (remainingPath pathComponents) prevAttr of
                  Inl e \<Rightarrow> Inl e
                | Inr None \<Rightarrow> deleteKey prev (attrKeyOf pathComponents)
                | Inr (Some v) \<Rightarrow> spreadWith prev (attrKeyOf pathComponents) v)))"
| "reduce js (CollectionType valueType) r d pathComponents prev =
     (case decodeURIComponent js (rawKeyOf pathComponents) of
        Inl e \<Rightarrow> Inl e
      | Inr key \<Rightarrow>
          if doc_text d = [] then deleteKey prev key
          else (case getProperty prev key of
                  Inl e \<Rightarrow> Inl e
                | Inr prevInner \<Rightarrow>
                    (case reduce js valueType r d (remainingPath pathComponents) prevInner of
                       Inl e \<Rightarrow> Inl e
                     | Inr None \<Rightarrow> deleteKey prev key
                     | Inr (Some inner) \<Rightarrow> spreadWith prev key inner)))"
| "reduce js (AppFormatType schema format prefix') r d pathComponents prev =
     (let minorVersion = minorVersionOf js pathComponents
      in if \<not> isNaN minorVersion \<and> greaterThan minorVersion (minor format) then Inr prev
         else (case afterPrefix (splitPath prefix') (remainingPath pathComponents) of
                 None \<Rightarrow> Inr prev
               | Some iterRest \<Rightarrow> reduce js schema r d iterRest prev))"
  by pat_completeness auto
termination
  by (relation "measure (\<lambda>(js, t, r, d, pathComponents, prev). size t)")
     (auto dest: shapeProperty_size)

text \<open>
  \<^verbatim>\<open>AppFormatType.getContentPrefix\<close>, which does not look at the path, and
  \<^verbatim>\<open>read\<close> of a format wrapper: the inherited \<^verbatim>\<open>EsType.read\<close> with that
  prefix.
\<close>

definition AppFormat_getContentPrefix :: "runtime \<Rightarrow> applicationFormat \<Rightarrow> string" where
  "AppFormat_getContentPrefix js format =
     ''/'' @ namespace format @ ''/'' @ numberToString js (major format) @ ''.''"

definition AppFormat_read :: "runtime \<Rightarrow> 'a esType \<Rightarrow> applicationFormat \<Rightarrow> string \<Rightarrow> replica
                                \<Rightarrow> error + 'a val option" where
  "AppFormat_read js schema format prefix' r =
     (let contentsPrefix = AppFormat_getContentPrefix js format;
          root = getLatestDocAtPath r (stripTrailingSlash contentsPrefix);
          contents = queryDocs r contentsPrefix
      in readLoop (reduce js (AppFormatType schema format prefix')) r contentsPrefix
           (root # map Some contents) None)"

section \<open>Writing through a schema node\<close>

text \<open>
  How a call of \<^verbatim>\<open>write\<close> ends: its promise is fulfilled, its promise is rejected, or
  the call itself throws before it returns a promise (\<^verbatim>\<open>MetadataType.write\<close> is not
  an \<^verbatim>\<open>async\<close> function). A write returns this together with the replica as the
  write left it.
\<close>

datatype completion =
    Fulfilled
  | Rejected error
  | Threw error

text \<open>An \<^verbatim>\<open>async\<close> function turns what its body throws into a rejected promise.\<close>

fun async :: "completion \<Rightarrow> completion" where
  "async (Threw e) = Rejected e"
| "async c = c"

text \<open>
  \<^verbatim>\<open>Promise.all\<close> over the promises that \<^verbatim>\<open>map\<close> collected: \<open>c\<close> is the
  completion of the first child write, \<open>rest\<close> that of the remaining ones. A child that
  throws ends the \<^verbatim>\<open>map\<close>; otherwise the first rejection (in the order of the array)
  is the outcome.
\<close>

fun allOf :: "completion \<Rightarrow> completion \<Rightarrow> completion" where
  "allOf c (Threw e) = Threw e"
| "allOf (Rejected e) rest = Rejected e"
| "allOf c rest = rest"

fun settled :: "error + unit \<Rightarrow> completion" where
  "settled (Inl e) = Rejected e"
| "settled (Inr u) = Fulfilled"

text \<open>
  \<^verbatim>\<open>AttachmentType.write\<close>: \<^verbatim>\<open>null\<close> wipes the document at the path (the
  outcome of the wipe is discarded), a value is set with its attachment.
\<close>

definition Attachment_write :: "replica \<Rightarrow> string \<Rightarrow> string \<Rightarrow> (string \<times> bytes) option
                                  \<Rightarrow> completion \<times> replica" where
  "Attachment_write r author p data =
     (case data of
        None \<Rightarrow> (Fulfilled, snd (wipeDocAtPath r author p))
      | Some (metadata, attachment) \<Rightarrow>
          (let (event, r') = replica_set r author
                               \<lparr>set_path = p, set_text = metadata,
                                set_attachment = Some attachment\<rparr>
           in (settled (requireWriteSuccess event), r')))"

text \<open>
  \<^verbatim>\<open>data[key]\<close> in \<^verbatim>\<open>ObjectType.write\<close>, where \<^verbatim>\<open>data\<close> is a plain
  object: the own property, and otherwise the member of \<^verbatim>\<open>Object.prototype\<close> with
  that name, if there is one. \<open>None\<close> is \<^verbatim>\<open>undefined\<close>.
\<close>

definition dataProperty :: "(string \<times> 'a val option) list \<Rightarrow> string \<Rightarrow> 'a val option option" where
  "dataProperty kvs key =
     (case map_of kvs key of
        Some v \<Rightarrow> Some v
      | None \<Rightarrow> if key \<in> set objectPrototypeKeys then Some (Some (Builtin key)) else None)"

text \<open>
  \<^verbatim>\<open>join('/')\<close> and the path under which \<^verbatim>\<open>AppFormatType.write\<close> writes.
\<close>

fun join :: "string \<Rightarrow> string list \<Rightarrow> string" where
  "join separator [] = []"
| "join separator [x] = x"
| "join separator (x # y # ys) = x @ separator @ join separator (y # ys)"

definition formatPath :: "runtime \<Rightarrow> applicationFormat \<Rightarrow> string \<Rightarrow> string \<Rightarrow> string" where
  "formatPath js format prefix' p =
     (let path = join ''/'' (splitPath prefix' @ splitPath p)
      in ''/'' @ namespace format @ ''/'' @ numberToString js (major format) @ ''.'' @
         numberToString js (minor format) @ ''/'' @ path)"

text \<open>
  \<^verbatim>\<open>write\<close> of each node (\<open>writeNode\<close>: \<open>write\<close> is a keyword here). The child
  writes of an object and of a collection are issued together and awaited with
  \<^verbatim>\<open>Promise.all\<close>; they are run here in the order of \<^verbatim>\<open>Object.entries\<close>, each
  on the replica the one before left. \<open>data = None\<close> is \<^verbatim>\<open>null\<close>. \<open>nextPath\<close> is
  the path of a field: the object's own path for the key \<^verbatim>\<open>@self\<close>, and the path,
  a slash and the key otherwise.

  The data of a field can be a member of \<^verbatim>\<open>Object.prototype\<close> (\<open>Builtin\<close>): a
  metadata node throws whatever it is given, a format wrapper hands it on, a collection
  finds no entries in it and a blob node fails on its missing \<^verbatim>\<open>stream\<close>. What an
  atom, an attachment and an object do with it (the codec, the replica and the
  properties of the function decide) is not modelled, nor is an object written from data
  with another prototype: these end as \<open>Rejected NotModelled\<close>.
\<close>

definition nextPath :: "string \<Rightarrow> string \<Rightarrow> string" where
  "nextPath p key = (if key = SELF_SIGIL then p else p @ ''/'' @ key)"

function writeNode :: "runtime \<Rightarrow> 'a esType \<Rightarrow> replica \<Rightarrow> string \<Rightarrow> string \<Rightarrow> 'a val option
                     \<Rightarrow> completion \<times> replica"
  and writeShape :: "runtime \<Rightarrow> (string \<times> 'a esType option) list \<Rightarrow> replica \<Rightarrow> string \<Rightarrow> string
                     \<Rightarrow> (string \<times> 'a val option) list \<Rightarrow> completion \<times> replica"
  and writeEntries :: "runtime \<Rightarrow> 'a esType \<Rightarrow> replica \<Rightarrow> string \<Rightarrow> string
                     \<Rightarrow> (string \<times> 'a val option) list \<Rightarrow> completion \<times> replica"
where
  "writeNode js (Atom c) r author p data =
     (case data of
        None \<Rightarrow> (let (res, r') = Atom_write c r author p None in (settled res, r'))
      | Some (Atomic x) \<Rightarrow> (let (res, r') = Atom_write c r author p (Some x) in (settled res, r'))
      | Some (Builtin m) \<Rightarrow> (Rejected NotModelled, r)
      | Some _ \<Rightarrow> (Rejected IllTyped, r))"
| "writeNode js AttachmentType r author p data =
     (case data of
        None \<Rightarrow> Attachment_write r author p None
      | Some (Attached metadata attachment) \<Rightarrow>
          Attachment_write r author p (Some (metadata, attachment))
      | Some (Builtin m) \<Rightarrow> (Rejected NotModelled, r)
      | Some _ \<Rightarrow> (Rejected IllTyped, r))"
| "writeNode js BlobAttachmentType r author p data =
     (case data of
        None \<Rightarrow> Attachment_write r author p None
      | Some (Blob bytes type) \<Rightarrow> Attachment_write r author p (Some (type, bytes))
      | Some (Builtin m) \<Rightarrow> (Rejected (TypeError ''data.stream is not a function''), r)
      | Some _ \<Rightarrow> (Rejected IllTyped, r))"
| "writeNode js (MetadataType f) r author p data =
     (Threw (Error ''Attempted to write to a read-only metadata value''), r)"
| "writeNode js (ObjectType shape) r author p data =
     (case data of
        None \<Rightarrow> (Fulfilled, wipeDocsUnderPath r author p)
      | Some (Obj kvs) \<Rightarrow>
          (case writeShape js shape r author p kvs of (c, r') \<Rightarrow> (async c, r'))
      | Some (Inheriting kvs proto) \<Rightarrow> (Rejected NotModelled, r)
      | Some (Builtin m) \<Rightarrow> (Rejected NotModelled, r)
      | Some _ \<Rightarrow> (Rejected IllTyped, r))"
| "writeNode js (CollectionType valueType) r author p data =
     (case data of
        None \<Rightarrow> (Fulfilled, wipeDocsUnderPath r author p)
      | Some (Obj kvs) \<Rightarrow>
          (case writeEntries js valueType r author p kvs of (c, r') \<Rightarrow> (async c, r'))
      | Some (Inheriting kvs proto) \<Rightarrow>
          (case writeEntries js valueType r author p kvs of (c, r') \<Rightarrow> (async c, r'))
      | Some (Builtin m) \<Rightarrow> (Fulfilled, r)
      | Some _ \<Rightarrow> (Rejected IllTyped, r))"
| "writeNode js (AppFormatType schema format prefix') r author p data =
     writeNode js schema r author (formatPath js format prefix' p) data"
| "writeShape js [] r author p kvs = (Fulfilled, r)"
| "writeShape js ((key, attr) # shape) r author p kvs =
     (case attr of
        None \<Rightarrow> writeShape js shape r author p kvs
      | Some t \<Rightarrow>
          (case dataProperty kvs key of
             None \<Rightarrow> writeShape js shape r author p kvs
           | Some v \<Rightarrow>
               (case writeNode js t r author (nextPath p key) v of
                  (Threw e, r') \<Rightarrow> (Threw e, r')
                | (c, r') \<Rightarrow>
                    (case writeShape js shape r' author p kvs of
                       (rest, r'') \<Rightarrow> (allOf c rest, r'')))))"
| "writeEntries js valueType r author p [] = (Fulfilled, r)"
| "writeEntries js valueType r author p ((key, v) # kvs) =
     (case writeNode js valueType r author (p @ ''/'' @ encodeURIComponent js key) v of
        (Threw e, r') \<Rightarrow> (Threw e, r')
      | (c, r') \<Rightarrow>
          (case writeEntries js valueType r' author p kvs of
             (rest, r'') \<Rightarrow> (allOf c rest, r'')))"
  by pat_completeness auto
termination
  by (relation "measures
         [\<lambda>x. case x of
             Inl (js, t, r, author, p, data) \<Rightarrow> 2 * size t
           | Inr (Inl (js, shape, r, author, p, kvs)) \<Rightarrow>
               2 * size_list (size_prod (\<lambda>_. 0) (size_option size)) shape + 1
           | Inr (Inr (js, valueType, r, author, p, kvs)) \<Rightarrow> 2 * size valueType + 1,
          \<lambda>x. case x of
             Inl (js, t, r, author, p, data) \<Rightarrow> 0
           | Inr (Inl (js, shape, r, author, p, kvs)) \<Rightarrow> 0
           | Inr (Inr (js, valueType, r, author, p, kvs)) \<Rightarrow> length kvs]")
     auto

section \<open>collection.ts: the built-in collections\<close>

text \<open>
  \<^verbatim>\<open>set\<close> (\<open>setType\<close> here) is a collection of the atom that encodes
  \<^verbatim>\<open>true\<close> as \<^verbatim>\<open>1\<close> and decodes every text as \<^verbatim>\<open>true\<close>; \<^verbatim>\<open>dict\<close>
  is a collection of the given value schema.
\<close>

definition setType :: "bool esType" where
  "setType = CollectionType (Atom \<lparr>encode = (\<lambda>x. Inr (if x then ''1'' else [])),
                                    decode = (\<lambda>x. Inr True)\<rparr>)"

definition dict :: "'a esType \<Rightarrow> 'a esType" where
  "dict valueSchema = CollectionType valueSchema"

section \<open>collection.ts: the inverse lookup\<close>

record findByCollectionKeyOpts =
  opts_replica :: replica
  collectionPrefix :: "string option"
  opts_filter :: "queryFilter option"

text \<open>
  \<^verbatim>\<open>opts.collectionPrefix + '/'\<close>: the operator \<^verbatim>\<open>+\<close> turns an operand that is
  \<^verbatim>\<open>undefined\<close> into the string \<^verbatim>\<open>undefined\<close>.
\<close>

definition toStringOrUndefined :: "string option \<Rightarrow> string" where
  "toStringOrUndefined x = (case x of None \<Rightarrow> ''undefined'' | Some s \<Rightarrow> s)"

text \<open>
  \<^verbatim>\<open>path.slice(0, end)\<close>: a negative \<^verbatim>\<open>end\<close> counts from the end of the string
  and is clamped at its start.
\<close>

definition slice0 :: "string \<Rightarrow> int \<Rightarrow> string" where
  "slice0 s e = (if e < 0 then take (nat (max 0 (int (length s) + e))) s else take (nat e) s)"

definition pathEndingOf :: "runtime \<Rightarrow> string \<Rightarrow> findByCollectionKeyOpts \<Rightarrow> string" where
  "pathEndingOf js key opts =
     toStringOrUndefined (collectionPrefix opts) @ ''/'' @ encodeURIComponent js key"

text \<open>\<^verbatim>\<open>{ ...opts.filter, pathEndsWith: pathEnding }\<close>.\<close>

definition filterEndingWith :: "queryFilter option \<Rightarrow> string \<Rightarrow> queryFilter" where
  "filterEndingWith f pathEnding =
     (case f of
        None \<Rightarrow> \<lparr>pathStartsWith = None, pathEndsWith = Some pathEnding\<rparr>
      | Some g \<Rightarrow> g\<lparr>pathEndsWith := Some pathEnding\<rparr>)"

definition findByCollectionKey :: "runtime \<Rightarrow> string \<Rightarrow> findByCollectionKeyOpts \<Rightarrow> string list" where
  "findByCollectionKey js key opts =
     (let pathEnding = pathEndingOf js key opts;
          relationPaths = queryPaths (opts_replica opts)
                            (filterEndingWith (opts_filter opts) pathEnding)
      in map (\<lambda>p. slice0 p (int (length p) - int (length pathEnding))) relationPaths)"

section \<open>The live query\<close>

text \<open>
  \<^verbatim>\<open>LiveQuery\<close>. Its fields are those of the class; \<open>lq_replicaEvents\<close> says whether
  the field \<^verbatim>\<open>replicaEvents\<close> holds a reader. The observers are the identities of
  the registered callbacks, and \<open>lq_notified\<close> logs each call of one with the value it was
  called with. \<open>lq_run\<close> is where the asynchronous \<^verbatim>\<open>run()\<close> stands: suspended at
  \<^verbatim>\<open>await this.replicaEvents.read()\<close>, returned, or failed with what it threw.
\<close>

datatype runState =
    AwaitingRead
  | Returned
  | Failed error

record 'v liveQuery =
  lq_value :: "'v option"
  lq_contentPrefix :: string
  lq_requestedPath :: string
  lq_rootPath :: string
  lq_replicaEvents :: bool
  lq_observers :: "nat list"
  lq_notified :: "(nat \<times> 'v option) list"
  lq_run :: runState

record replicaEvent =
  event_kind :: string
  event_doc :: doc

text \<open>What \<^verbatim>\<open>reader.read()\<close> resolves to: the next event, or the end of the stream.\<close>

datatype message =
    Done
  | Value replicaEvent

definition snapshot :: "'v liveQuery \<Rightarrow> 'v option" where
  "snapshot lq = lq_value lq"

definition isClosed :: "'v liveQuery \<Rightarrow> bool" where
  "isClosed lq = (\<not> lq_replicaEvents lq)"

text \<open>
  \<^verbatim>\<open>run()\<close> up to its first \<^verbatim>\<open>await\<close>: it throws when a reader is held, and
  otherwise takes a reader and waits for the first message.
\<close>

definition run :: "'v liveQuery \<Rightarrow> 'v liveQuery" where
  "run lq =
     (if lq_replicaEvents lq
      then lq\<lparr>lq_run := Failed (Error ''Attempting to start liveQuery while already active'')\<rparr>
      else lq\<lparr>lq_replicaEvents := True, lq_run := AwaitingRead\<rparr>)"

text \<open>The constructor: it calls \<^verbatim>\<open>run()\<close> and sets \<^verbatim>\<open>rootPath\<close>.\<close>

definition newLiveQuery :: "string \<Rightarrow> string \<Rightarrow> 'v option \<Rightarrow> 'v liveQuery" where
  "newLiveQuery contentPrefix requestedPath v =
     run \<lparr>lq_value = v, lq_contentPrefix = contentPrefix, lq_requestedPath = requestedPath,
          lq_rootPath = stripTrailingSlash contentPrefix, lq_replicaEvents = False,
          lq_observers = [], lq_notified = [], lq_run = Returned\<rparr>"

text \<open>\<^verbatim>\<open>EsType.observe\<close>: the initial value is a \<^verbatim>\<open>read\<close> at the content prefix.\<close>

definition observe :: "'v reducer \<Rightarrow> replica \<Rightarrow> string \<Rightarrow> error + 'v liveQuery" where
  "observe schemaReduce r p =
     (let contentPrefix = getContentPrefix p
      in case read schemaReduce r contentPrefix of
           Inl e \<Rightarrow> Inl e
         | Inr initial \<Rightarrow> Inr (newLiveQuery contentPrefix p initial))"

text \<open>
  \<^verbatim>\<open>close()\<close>: the observers are cleared, the reader is cancelled (a pending
  \<^verbatim>\<open>read()\<close> of \<^verbatim>\<open>run()\<close> then resolves as done, and \<^verbatim>\<open>run()\<close> returns)
  and the field is set to \<^verbatim>\<open>undefined\<close>.
\<close>

definition close :: "'v liveQuery \<Rightarrow> 'v liveQuery" where
  "close lq =
     lq\<lparr>lq_observers := [], lq_replicaEvents := False,
        lq_run := (if lq_run lq = AwaitingRead then Returned else lq_run lq)\<rparr>"

definition subscribe :: "'v liveQuery \<Rightarrow> nat \<Rightarrow> 'v liveQuery" where
  "subscribe lq observer =
     (let lq' = lq\<lparr>lq_observers := List.insert observer (lq_observers lq)\<rparr>
      in if isClosed lq' then run lq' else lq')"

text \<open>The function that \<^verbatim>\<open>subscribe\<close> returns.\<close>

definition unsubscribe :: "'v liveQuery \<Rightarrow> nat \<Rightarrow> 'v liveQuery" where
  "unsubscribe lq observer =
     (let lq' = lq\<lparr>lq_observers := removeAll observer (lq_observers lq)\<rparr>
      in if length (lq_observers lq') = 0 then close lq' else lq')"

text \<open>
  \<^verbatim>\<open>handleDoc\<close>. \<open>schemaReduce\<close> is the \<^verbatim>\<open>reduce\<close> of the schema and \<open>r\<close> the replica as it stands
  when the document arrives.
\<close>

definition handleDoc :: "'v reducer \<Rightarrow> replica \<Rightarrow> 'v liveQuery \<Rightarrow> doc \<Rightarrow> error + 'v liveQuery" where
  "handleDoc schemaReduce r lq d =
     (if doc_path d \<noteq> lq_rootPath lq \<and> \<not> startsWith (doc_path d) (lq_contentPrefix lq)
      then Inr lq
      else (case schemaReduce r d
                   (splitPath (substring (doc_path d) (length (lq_contentPrefix lq))))
                   (lq_value lq) of
              Inl e \<Rightarrow> Inl e
            | Inr v \<Rightarrow>
                Inr (lq\<lparr>lq_value := v,
                        lq_notified := lq_notified lq @ map (\<lambda>ob. (ob, v)) (lq_observers lq)\<rparr>)))"

text \<open>
  One turn of the loop of \<^verbatim>\<open>run()\<close>, from the message that \<^verbatim>\<open>read()\<close> resolves
  to, up to the next \<^verbatim>\<open>read()\<close> or the end of \<^verbatim>\<open>run()\<close>. A message is consumed
  only while \<^verbatim>\<open>run()\<close> is waiting for one.
\<close>

definition loopAgain :: "'v liveQuery \<Rightarrow> 'v liveQuery" where
  "loopAgain lq = (if lq_replicaEvents lq then lq else lq\<lparr>lq_run := Returned\<rparr>)"

definition onMessage :: "'v reducer \<Rightarrow> replica \<Rightarrow> 'v liveQuery \<Rightarrow> message \<Rightarrow> 'v liveQuery" where
  "onMessage schemaReduce r lq msg =
     (if lq_run lq \<noteq> AwaitingRead then lq
      else (case msg of
              Done \<Rightarrow> lq\<lparr>lq_run := Returned\<rparr>
            | Value event \<Rightarrow>
                if event_kind event = ''success'' \<or> event_kind event = ''expire''
                then (if doc_format (event_doc event) \<noteq> ''es.5''
                      then lq\<lparr>lq_run := Returned\<rparr>
                      else (case handleDoc schemaReduce r lq (event_doc event) of
                              Inl e \<Rightarrow> lq\<lparr>lq_run := Failed e\<rparr>
                            | Inr lq' \<Rightarrow> loopAgain lq'))
                else loopAgain lq))"

text \<open>The messages of a stream, consumed in order.\<close>

definition onMessages :: "'v reducer \<Rightarrow> replica \<Rightarrow> 'v liveQuery \<Rightarrow> message list \<Rightarrow> 'v liveQuery" where
  "onMessages schemaReduce r lq msgs = foldl (onMessage schemaReduce r) lq msgs"

section \<open>A run-time for the examples\<close>

text \<open>
  \<^verbatim>\<open>encodeURIComponent\<close> on a string of bytes: an unreserved character (a letter, a
  digit or one of \<^verbatim>\<open>-_.!~*'()\<close>) stands for itself, every other byte is escaped as
  a percent sign and two upper-case hexadecimal digits.
\<close>

definition uriUnreserved :: "char \<Rightarrow> bool" where
  "uriUnreserved c =
     (c \<in> set ''ABCDEFGHIJKLMNOPQRSTUVWXYZabcdefghijklmnopqrstuvwxyz0123456789-_.!~*()''
      \<or> c = CHR 0x27)"

definition hexDigit :: "nat \<Rightarrow> char" where
  "hexDigit n = ''0123456789ABCDEF'' ! (n mod 16)"

definition percentEscape :: "char \<Rightarrow> string" where
  "percentEscape c = [CHR ''%'', hexDigit (of_char c div 16), hexDigit (of_char c mod 16)]"

definition encodeBytes :: "string \<Rightarrow> string" where
  "encodeBytes s = concat (map (\<lambda>c. if uriUnreserved c then [c] else percentEscape c) s)"

definition hexValue :: "char \<Rightarrow> nat option" where
  "hexValue c =
     (let n = (of_char c :: nat)
      in if 48 \<le> n \<and> n \<le> 57 then Some (n - 48)
         else if 65 \<le> n \<and> n \<le> 70 then Some (n - 55)
         else if 97 \<le> n \<and> n \<le> 102 then Some (n - 87)
         else None)"

text \<open>
  \<^verbatim>\<open>decodeURIComponent\<close> on escapes of ASCII characters: a percent sign that two
  hexadecimal digits do not follow is a \<^verbatim>\<open>URIError\<close>. The escapes of bytes from
  0x80 on, which the run-time reads as UTF-8 sequences, are not modelled.
\<close>

fun decodeAscii :: "string \<Rightarrow> error + string" where
  "decodeAscii [] = Inr []"
| "decodeAscii (c # cs) =
     (if c = CHR ''%''
      then (case cs of
              h1 # h2 # rest \<Rightarrow>
                (case (hexValue h1, hexValue h2) of
                   (Some a, Some b) \<Rightarrow>
                     (if 16 * a + b < 128
                      then map_sum id ((#) (char_of (16 * a + b))) (decodeAscii rest)
                      else Inl NotModelled)
                 | _ \<Rightarrow> Inl (URIError ''URI malformed''))
            | _ \<Rightarrow> Inl (URIError ''URI malformed''))
      else map_sum id ((#) c) (decodeAscii cs))"

text \<open>
  \<^verbatim>\<open>String\<close> and \<^verbatim>\<open>Number\<close> for the examples. They are ECMA-262's
  \<^verbatim>\<open>Number::toString\<close> and \<^verbatim>\<open>StringToNumber\<close> on \<^verbatim>\<open>NaN\<close>, the
  infinities, the negative zero and the safe integers (those of magnitude at most
  \<open>2^53 - 1\<close>, which are written as their decimal digits), and on the texts of these.
  The examples use no other number; on the others these two functions are not the
  run-time's (a finite number is written as the digits of its integer part, a text reads
  as \<^verbatim>\<open>NaN\<close>).
\<close>

definition isSafeInteger :: "rat \<Rightarrow> bool" where
  "isSafeInteger q = (q = of_int \<lfloor>q\<rfloor> \<and> \<bar>q\<bar> \<le> 2 ^ 53 - 1)"

definition integerToString :: "jsNumber \<Rightarrow> string" where
  "integerToString x =
     (case x of
        NaN \<Rightarrow> ''NaN''
      | Infinity \<Rightarrow> ''Infinity''
      | NegativeInfinity \<Rightarrow> ''-Infinity''
      | NegativeZero \<Rightarrow> ''0''
      | Finite q \<Rightarrow> decimalString \<lfloor>q\<rfloor>)"

definition stringToInteger :: "string \<Rightarrow> jsNumber" where
  "stringToInteger s =
     (if s = ''Infinity'' \<or> s = ''+Infinity'' then Infinity
      else if s = ''-Infinity'' then NegativeInfinity
      else (case parseInteger s of
              None \<Rightarrow> NaN
            | Some i \<Rightarrow>
                if \<not> isSafeInteger (of_int i) then NaN
                else if i = 0 \<and> take 1 s = ''-'' then NegativeZero
                else Finite (of_int i)))"

definition asciiRuntime :: runtime where
  "asciiRuntime = \<lparr>encodeURIComponent = encodeBytes, decodeURIComponent = decodeAscii,
                    numberToString = integerToString, stringToNumber = stringToInteger\<rparr>"

section \<open>Example stores and documents\<close>

definition plainDoc :: "string \<Rightarrow> string \<Rightarrow> doc" where
  "plainDoc p t = \<lparr>doc_format = ''es.5'', doc_path = p, doc_text = t, doc_author = ''@me'',
                   doc_attachmentSize = None\<rparr>"

definition storeOf :: "doc list \<Rightarrow> replica" where
  "storeOf ds = \<lparr>docs = ds, refuses = (\<lambda>a p. None), attachmentOf = (\<lambda>d. AttachmentUndefined)\<rparr>"

definition siblingStore :: replica where
  "siblingStore = storeOf [plainDoc ''/a'' ''x'', plainDoc ''/ab'' ''y'']"

definition postsStore :: replica where
  "postsStore = storeOf [plainDoc ''/posts/2/related/%2Fposts%2F1'' ''1'',
                         plainDoc ''/posts/3/related/%2Fposts%2F1'' ''1'']"

definition pathOfDoc :: "string val reducer" where
  "pathOfDoc r d pathComponents prev = Inr (Some (Atomic (doc_path d)))"

definition claimingDoc :: doc where
  "claimingDoc = \<lparr>doc_format = ''es.5'', doc_path = ''/images/my-image.png'',
                   doc_text = ''image/png'', doc_author = ''@me'', doc_attachmentSize = Some 3\<rparr>"

definition failingStore :: replica where
  "failingStore = \<lparr>docs = [claimingDoc], refuses = (\<lambda>a p. None),
                     attachmentOf = (\<lambda>d. AttachmentIsError (Error ''attachment unavailable''))\<rparr>"

definition foreignEvent :: replicaEvent where
  "foreignEvent = \<lparr>event_kind = ''success'',
                    event_doc = \<lparr>doc_format = ''es.4'', doc_path = ''/a'', doc_text = ''z'',
                                 doc_author = ''@me'', doc_attachmentSize = None\<rparr>\<rparr>"

definition nextEvent :: replicaEvent where
  "nextEvent = \<lparr>event_kind = ''success'', event_doc = plainDoc ''/a'' ''w''\<rparr>"

definition stringReduce :: "string reducer" where
  "stringReduce r d pathComponents prev = Atom_reduce string d"


definition someObjectStore :: replica where
  "someObjectStore = storeOf [plainDoc ''/someObject'' ''hello'',
                              plainDoc ''/someObject/title'' ''SomeObject'',
                              plainDoc ''/someObjectX'' ''other'']"

definition titledShape :: "(string \<times> string esType option) list" where
  "titledShape = [(''@self'', Some (Atom string)), (''title'', Some (Atom string))]"


definition refusingStore :: replica where
  "refusingStore = \<lparr>docs = [plainDoc ''/someObject'' ''hello'',
                              plainDoc ''/someObject/title'' ''SomeObject''],
                      refuses = (\<lambda>a p. Some ''not permitted''),
                      attachmentOf = (\<lambda>d. AttachmentUndefined)\<rparr>"

definition protoStore :: replica where
  "protoStore = storeOf [plainDoc ''/c/__proto__/dictProp'' ''1'',
                         plainDoc ''/c/x/dictProp'' []]"

definition dictPropShape :: "(string \<times> string esType option) list" where
  "dictPropShape = [(''dictProp'', Some (Atom string))]"

definition selfDictShape :: "(string \<times> string esType option) list" where
  "selfDictShape = [(''@self'', Some (dict (Atom string))), (''title'', Some (Atom string))]"

definition archiveFormat :: applicationFormat where
  "archiveFormat = \<lparr>namespace = ''app'', major = Finite 1, minor = Finite 0\<rparr>"

definition archivedShape :: "(string \<times> string esType option) list" where
  "archivedShape = [(''title'', Some (Atom string)),
                    (''archive'', Some (AppFormatType (Atom string) archiveFormat []))]"

section \<open>The paths a write addresses\<close>

text \<open>
  The paths at which the write of \<open>data\<close> through a node at the path \<open>w\<close> can change
  the replica. An atom, an attachment and a blob write the document at \<open>w\<close>; a metadata
  node writes nothing; \<^verbatim>\<open>null\<close> through an object or a collection wipes \<open>w\<close> and
  the paths that start with \<open>w\<close> and a slash; an object value addresses what its declared
  fields that are present in it address at their paths, a collection value what its
  entries address at theirs; a format wrapper what the node it wraps addresses at the
  wrapper's path. Where the write is not modelled (data of the wrong type for the node,
  data that is a member of \<^verbatim>\<open>Object.prototype\<close> given to an atom, an attachment or
  an object, an object written from data with another prototype), every path counts as
  addressed.
\<close>

fun touches :: "runtime \<Rightarrow> 'a esType \<Rightarrow> string \<Rightarrow> 'a val option \<Rightarrow> string \<Rightarrow> bool" where
  "touches js (Atom c) w data q =
     (case data of None \<Rightarrow> q = w | Some (Atomic x) \<Rightarrow> q = w | Some _ \<Rightarrow> True)"
| "touches js AttachmentType w data q =
     (case data of None \<Rightarrow> q = w | Some (Attached metadata attachment) \<Rightarrow> q = w | Some _ \<Rightarrow> True)"
| "touches js BlobAttachmentType w data q =
     (case data of
        None \<Rightarrow> q = w
      | Some (Blob bytes type) \<Rightarrow> q = w
      | Some (Builtin m) \<Rightarrow> False
      | Some _ \<Rightarrow> True)"
| "touches js (MetadataType f) w data q = False"
| "touches js (ObjectType shape) w data q =
     (case data of
        None \<Rightarrow> q = w \<or> startsWith q (w @ ''/'')
      | Some (Obj kvs) \<Rightarrow>
          list_ex (\<lambda>(key, attr).
                     case attr of
                       None \<Rightarrow> False
                     | Some t \<Rightarrow>
                         (case dataProperty kvs key of
                            None \<Rightarrow> False
                          | Some v \<Rightarrow> touches js t (nextPath w key) v q)) shape
      | Some _ \<Rightarrow> True)"
| "touches js (CollectionType valueType) w data q =
     (case data of
        None \<Rightarrow> q = w \<or> startsWith q (w @ ''/'')
      | Some (Obj kvs) \<Rightarrow>
          list_ex (\<lambda>(key, v). touches js valueType (w @ ''/'' @ encodeURIComponent js key) v q) kvs
      | Some (Inheriting kvs proto) \<Rightarrow>
          list_ex (\<lambda>(key, v). touches js valueType (w @ ''/'' @ encodeURIComponent js key) v q) kvs
      | Some (Builtin m) \<Rightarrow> False
      | Some _ \<Rightarrow> True)"
| "touches js (AppFormatType schema format prefix') w data q =
     touches js schema (formatPath js format prefix' w) data q"

section \<open>Theorems\<close>

subsection \<open>C1: what read fetches\<close>

text \<open>
  C1. On a store with a document \<^verbatim>\<open>x\<close> at \<^verbatim>\<open>/a\<close> and a document
  \<^verbatim>\<open>y\<close> at the sibling path \<^verbatim>\<open>/ab\<close>, \<^verbatim>\<open>read('/a')\<close> of the string atom
  folds three documents: the root, the root a second time, and the sibling; and it returns
  the sibling's text \<^verbatim>\<open>y\<close>. The content prefix of a path without a trailing slash is
  the path itself, not the path followed by a slash.
\<close>

theorem read_folds_sibling_and_root_twice:
  "getContentPrefix ''/a'' = ''/a'' \<and>
   map (map_option doc_path) (readDocs siblingStore ''/a'') = [Some ''/a'', Some ''/a'', Some ''/ab''] \<and>
   Atom_read string siblingStore ''/a'' = Inr (Some ''y'')"
  by (simp add: getContentPrefix_def readDocs_def read_def siblingStore_def storeOf_def plainDoc_def endsWith_def
      stripTrailingSlash_def getLatestDocAtPath_def queryDocs_def startsWith_def
      suffix_to_prefix Atom_read_def Atom_reduce_def string_def splitPath_def substring_def Let_def)

subsection \<open>C10: writing through a metadata node\<close>

lemma async_not_Threw: "async c \<noteq> Threw e"
  by (cases c) auto

lemma settled_not_Threw: "settled x \<noteq> Threw e"
  by (cases x) auto

lemma Attachment_write_not_Threw: "Attachment_write r author p data \<noteq> (Threw e, r')"
  by (auto simp: Attachment_write_def settled_not_Threw split: option.splits prod.splits)

lemma writeNode_Threw:
  "writeNode js t r author p v = (Threw e, r')
   \<Longrightarrow> e = Error ''Attempted to write to a read-only metadata value''"
  by (induction t arbitrary: p)
     (auto simp: async_not_Threw settled_not_Threw Attachment_write_not_Threw
           split: option.splits val.splits prod.splits)

lemma dataProperty_own: "map_of kvs key = Some v \<Longrightarrow> dataProperty kvs key = Some v"
  by (simp add: dataProperty_def)

lemma writeShape_metadata:
  "(key, Some (MetadataType f)) \<in> set shape \<Longrightarrow> dataProperty kvs key \<noteq> None
   \<Longrightarrow> \<exists>r'. writeShape js shape r author p kvs =
          (Threw (Error ''Attempted to write to a read-only metadata value''), r')"
proof (induction shape arbitrary: r)
  case Nil
  then show ?case by simp
next
  case (Cons entry shape)
  obtain k attr where entry: "entry = (k, attr)" by (cases entry)
  show ?case
  proof (cases "entry = (key, Some (MetadataType f))")
    case True
    with Cons.prems show ?thesis by auto
  next
    case False
    with Cons.prems have mem: "(key, Some (MetadataType f)) \<in> set shape" by auto
    note ih = Cons.IH [OF mem Cons.prems(2)]
    show ?thesis
    proof (cases attr)
      case None
      with entry ih show ?thesis by simp
    next
      case (Some t)
      show ?thesis
      proof (cases "dataProperty kvs k")
        case None
        with entry Some ih show ?thesis by simp
      next
        case (Some v)
        obtain c r1 where w: "writeNode js t r author (nextPath p k) v = (c, r1)"
          by (cases "writeNode js t r author (nextPath p k) v")
        from ih [of r1] obtain r2 where rest: "writeShape js shape r1 author p kvs =
          (Threw (Error ''Attempted to write to a read-only metadata value''), r2)" by blast
        show ?thesis
        proof (cases c)
          case Fulfilled
          with entry \<open>attr = Some t\<close> Some w rest show ?thesis by simp
        next
          case (Rejected e)
          with entry \<open>attr = Some t\<close> Some w rest show ?thesis by simp
        next
          case (Threw e)
          text \<open>only a metadata node throws\<close>
          with entry \<open>attr = Some t\<close> Some w writeNode_Threw [OF w [unfolded Threw]]
          show ?thesis by simp
        qed
      qed
    qed
  qed
qed

text \<open>
  C10. For every replica, author, path and data (\<^verbatim>\<open>null\<close> included),
  \<^verbatim>\<open>write\<close> of a metadata node throws the error
  \<^verbatim>\<open>Attempted to write to a read-only metadata value\<close> and leaves the replica as it
  was. Nothing catches the error: an object that has a metadata node among the fields
  present in its data, and a collection of metadata nodes given an entry, reject with
  that very error.
\<close>

theorem metadata_write_throws:
  "writeNode js (MetadataType f) r author p data =
     (Threw (Error ''Attempted to write to a read-only metadata value''), r) \<and>
   ((key, Some (MetadataType f)) \<in> set shape \<and> map_of kvs key \<noteq> None \<longrightarrow>
      (\<exists>r'. writeNode js (ObjectType shape) r author p (Some (Obj kvs)) =
         (Rejected (Error ''Attempted to write to a read-only metadata value''), r'))) \<and>
   writeNode js (CollectionType (MetadataType f)) r author p (Some (Obj (kv # kvs'))) =
     (Rejected (Error ''Attempted to write to a read-only metadata value''), r)"
proof (intro conjI impI)
  show "writeNode js (MetadataType f) r author p data =
     (Threw (Error ''Attempted to write to a read-only metadata value''), r)"
    by simp
next
  assume "(key, Some (MetadataType f)) \<in> set shape \<and> map_of kvs key \<noteq> None"
  then have "(key, Some (MetadataType f)) \<in> set shape" "dataProperty kvs key \<noteq> None"
    by (auto simp: dataProperty_own)
  then obtain r' where "writeShape js shape r author p kvs =
      (Threw (Error ''Attempted to write to a read-only metadata value''), r')"
    using writeShape_metadata by blast
  then show "\<exists>r'. writeNode js (ObjectType shape) r author p (Some (Obj kvs)) =
         (Rejected (Error ''Attempted to write to a read-only metadata value''), r')"
    by simp
next
  show "writeNode js (CollectionType (MetadataType f)) r author p (Some (Obj (kv # kvs'))) =
     (Rejected (Error ''Attempted to write to a read-only metadata value''), r)"
    by (cases kv) simp
qed

theorem metadata_write_throws_witness:
  "writeNode asciiRuntime (MetadataType pathOfDoc)
      (storeOf [plainDoc ''/a'' ''x'']) ''@me'' ''/a'' None =
     (Threw (Error ''Attempted to write to a read-only metadata value''), storeOf [plainDoc ''/a'' ''x'']) \<and>
   (\<exists>r'. writeNode asciiRuntime
           (ObjectType [(''title'', Some (Atom string)),
                        (''@self'', Some (MetadataType pathOfDoc))])
           (storeOf [plainDoc ''/a'' ''x'']) ''@me'' ''/a''
           (Some (Obj [(''@self'', Some (Atomic ''y''))])) =
         (Rejected (Error ''Attempted to write to a read-only metadata value''), r'))"
  using metadata_write_throws
          [of asciiRuntime pathOfDoc
              "storeOf [plainDoc ''/a'' ''x'']" "''@me''" "''/a''" None "''@self''"
              "[(''title'', Some (Atom string)),
                (''@self'', Some (MetadataType pathOfDoc))]"
              "[(''@self'', Some (Atomic ''y''))]"]
  by simp

subsection \<open>C9: the inverse lookup without a collection prefix\<close>

lemma slice0_suffix:
  "endsWith p e \<Longrightarrow> slice0 p (int (length p) - int (length e)) = take (length p - length e) p"
proof -
  assume "endsWith p e"
  then have "length e \<le> length p"
    by (simp add: endsWith_def suffix_length_le)
  then show ?thesis
    by (simp add: slice0_def nat_diff_distrib')
qed

text \<open>
  C9. With \<^verbatim>\<open>collectionPrefix\<close> omitted, the path ending that
  \<^verbatim>\<open>findByCollectionKey\<close> asks for is the string \<^verbatim>\<open>undefined/\<close> followed by
  the encoded key, and what it returns are exactly the stored paths with that ending
  (and the prefix of the filter, if any), each cut by the length of the ending. A path
  that ends in the encoded key alone, after some other segment, is not returned.
\<close>

theorem findByCollectionKey_without_prefix:
  "pathEndingOf js key (opts\<lparr>collectionPrefix := None\<rparr>) = ''undefined/'' @ encodeURIComponent js key \<and>
   findByCollectionKey js key (opts\<lparr>collectionPrefix := None\<rparr>) =
     map (\<lambda>p. take (length p - length (''undefined/'' @ encodeURIComponent js key)) p)
       (filter (\<lambda>p. (case opts_filter opts of
                        None \<Rightarrow> True
                      | Some g \<Rightarrow> (case pathStartsWith g of None \<Rightarrow> True | Some s \<Rightarrow> startsWith p s)) \<and>
                     endsWith p (''undefined/'' @ encodeURIComponent js key))
          (map doc_path (docs (opts_replica opts))))"
proof -
  define e where "e = ''undefined/'' @ encodeURIComponent js key"
  have ending: "pathEndingOf js key (opts\<lparr>collectionPrefix := None\<rparr>) = e"
    by (simp add: pathEndingOf_def toStringOrUndefined_def e_def)
  have matches: "matchesFilter (filterEndingWith (opts_filter opts) e) p =
      ((case opts_filter opts of
          None \<Rightarrow> True
        | Some g \<Rightarrow> (case pathStartsWith g of None \<Rightarrow> True | Some s \<Rightarrow> startsWith p s)) \<and>
       endsWith p e)" for p
    by (simp add: matchesFilter_def filterEndingWith_def split: option.splits)
  have "findByCollectionKey js key (opts\<lparr>collectionPrefix := None\<rparr>) =
      map (\<lambda>p. slice0 p (int (length p) - int (length e)))
        (filter (matchesFilter (filterEndingWith (opts_filter opts) e))
           (map doc_path (docs (opts_replica opts))))"
    unfolding findByCollectionKey_def ending Let_def queryPaths_def by simp
  also have "\<dots> = map (\<lambda>p. take (length p - length e) p)
        (filter (matchesFilter (filterEndingWith (opts_filter opts) e))
           (map doc_path (docs (opts_replica opts))))"
    by (rule map_cong [OF refl]) (simp add: matches slice0_suffix)
  finally have "findByCollectionKey js key (opts\<lparr>collectionPrefix := None\<rparr>) =
      map (\<lambda>p. take (length p - length e) p)
        (filter (\<lambda>p. (case opts_filter opts of
                        None \<Rightarrow> True
                      | Some g \<Rightarrow> (case pathStartsWith g of None \<Rightarrow> True | Some s \<Rightarrow> startsWith p s)) \<and>
                     endsWith p e)
           (map doc_path (docs (opts_replica opts))))"
    by (simp add: matches [abs_def])
  with ending show ?thesis
    unfolding e_def by blast
qed

theorem findByCollectionKey_without_prefix_witness:
  "findByCollectionKey asciiRuntime ''/posts/1''
     \<lparr>opts_replica = postsStore, collectionPrefix = None,
      opts_filter = Some \<lparr>pathStartsWith = Some ''/posts/'', pathEndsWith = None\<rparr>\<rparr> = [] \<and>
   findByCollectionKey asciiRuntime ''/posts/1''
     \<lparr>opts_replica = postsStore, collectionPrefix = Some ''/related'',
      opts_filter = Some \<lparr>pathStartsWith = Some ''/posts/'', pathEndsWith = None\<rparr>\<rparr>
     = [''/posts/2'', ''/posts/3'']"
proof
  show "findByCollectionKey asciiRuntime ''/posts/1''
     \<lparr>opts_replica = postsStore, collectionPrefix = None,
      opts_filter = Some \<lparr>pathStartsWith = Some ''/posts/'', pathEndsWith = None\<rparr>\<rparr> = []"
    using findByCollectionKey_without_prefix
       [of asciiRuntime "''/posts/1''" "\<lparr>opts_replica = postsStore, collectionPrefix = None,
        opts_filter = Some \<lparr>pathStartsWith = Some ''/posts/'', pathEndsWith = None\<rparr>\<rparr>"]
    by (simp add: asciiRuntime_def encodeBytes_def uriUnreserved_def percentEscape_def
        hexDigit_def postsStore_def storeOf_def plainDoc_def startsWith_def endsWith_def
        suffix_to_prefix)
next
  show "findByCollectionKey asciiRuntime ''/posts/1''
     \<lparr>opts_replica = postsStore, collectionPrefix = Some ''/related'',
      opts_filter = Some \<lparr>pathStartsWith = Some ''/posts/'', pathEndsWith = None\<rparr>\<rparr>
     = [''/posts/2'', ''/posts/3'']"
    by (simp add: findByCollectionKey_def pathEndingOf_def toStringOrUndefined_def
        asciiRuntime_def encodeBytes_def uriUnreserved_def percentEscape_def hexDigit_def
        postsStore_def storeOf_def plainDoc_def queryPaths_def matchesFilter_def
        filterEndingWith_def startsWith_def endsWith_def suffix_to_prefix slice0_def Let_def)
qed

subsection \<open>C7: reducing an attachment\<close>

lemma getContentPrefix_no_slash: "\<not> endsWith p ''/'' \<Longrightarrow> getContentPrefix p = p"
  by (simp add: getContentPrefix_def)

lemma stripTrailingSlash_no_slash: "\<not> endsWith p ''/'' \<Longrightarrow> stripTrailingSlash p = p"
  by (simp add: stripTrailingSlash_def)

text \<open>
  C7, as the claim states it, fails: for a document that claims an attachment
  (\<open>doc_attachmentSize\<close> is set) on a replica that does not hold the attachment
  (\<^verbatim>\<open>getAttachment\<close> answers \<^verbatim>\<open>undefined\<close>), \<^verbatim>\<open>reduce\<close> returns
  \<^verbatim>\<open>null\<close> and so does \<^verbatim>\<open>read\<close>; no error is raised.
\<close>

theorem attachment_reduce_counterexample:
  "doc_attachmentSize claimingDoc = Some 3 \<and>
   attachmentOf (storeOf [claimingDoc]) claimingDoc = AttachmentUndefined \<and>
   reduce asciiRuntime AttachmentType (storeOf [claimingDoc]) claimingDoc [] None = Inr None \<and>
   read (reduce asciiRuntime AttachmentType) (storeOf [claimingDoc]) ''/images/my-image.png'' = Inr None"
  by (simp add: claimingDoc_def storeOf_def read_def readDocs_def getContentPrefix_def
      stripTrailingSlash_def endsWith_def suffix_to_prefix getLatestDocAtPath_def queryDocs_def
      startsWith_def Let_def Attachment_reduce_def)

text \<open>
  C7, amended. \<^verbatim>\<open>AttachmentType.reduce\<close> fails exactly when the replica's
  \<^verbatim>\<open>getAttachment\<close> answers with an error, and then with that error; it returns
  \<^verbatim>\<open>null\<close> exactly when the replica answers \<^verbatim>\<open>undefined\<close>; and it returns
  the document's text as metadata with the attachment exactly when the replica supplies
  one. The error reaches the caller: when the replica answers with an error for the
  document at the requested path, \<^verbatim>\<open>read\<close> and \<^verbatim>\<open>observe\<close> at that path fail
  with it.
\<close>

theorem attachment_reduce_outcomes:
  "(reduce js (AttachmentType :: 'a esType) r d pathComponents prev = Inl e \<longleftrightarrow>
      attachmentOf r d = AttachmentIsError e) \<and>
   (reduce js (AttachmentType :: 'a esType) r d pathComponents prev = Inr None \<longleftrightarrow>
      attachmentOf r d = AttachmentUndefined) \<and>
   (reduce js (AttachmentType :: 'a esType) r d pathComponents prev = Inr (Some v) \<longleftrightarrow>
      (\<exists>a. attachmentOf r d = AttachmentFound a \<and> v = Attached (doc_text d) a)) \<and>
   (getLatestDocAtPath r p = Some d \<and> \<not> endsWith p ''/'' \<and> attachmentOf r d = AttachmentIsError e
      \<longrightarrow> read (reduce js (AttachmentType :: 'a esType)) r p = Inl e \<and>
          observe (reduce js (AttachmentType :: 'a esType)) r p = Inl e)"
proof (intro conjI impI)
  show "reduce js (AttachmentType :: 'a esType) r d pathComponents prev = Inl e \<longleftrightarrow>
      attachmentOf r d = AttachmentIsError e"
    by (cases "attachmentOf r d") (auto simp: Attachment_reduce_def)
  show "reduce js (AttachmentType :: 'a esType) r d pathComponents prev = Inr None \<longleftrightarrow>
      attachmentOf r d = AttachmentUndefined"
    by (cases "attachmentOf r d") (auto simp: Attachment_reduce_def)
  show "reduce js (AttachmentType :: 'a esType) r d pathComponents prev = Inr (Some v) \<longleftrightarrow>
      (\<exists>a. attachmentOf r d = AttachmentFound a \<and> v = Attached (doc_text d) a)"
    by (cases "attachmentOf r d") (auto simp: Attachment_reduce_def)
next
  assume a: "getLatestDocAtPath r p = Some d \<and> \<not> endsWith p ''/'' \<and>
             attachmentOf r d = AttachmentIsError e"
  then have docs: "readDocs r p = Some d # map Some (queryDocs r p)"
    by (simp add: readDocs_def getContentPrefix_no_slash stripTrailingSlash_no_slash)
  with a show rd: "read (reduce js (AttachmentType :: 'a esType)) r p = Inl e"
    by (simp add: read_def Attachment_reduce_def)
  from a rd show "observe (reduce js (AttachmentType :: 'a esType)) r p = Inl e"
    by (simp add: observe_def getContentPrefix_no_slash)
qed

theorem attachment_reduce_outcomes_witness:
  "read (reduce asciiRuntime (AttachmentType :: string esType)) failingStore ''/images/my-image.png''
     = Inl (Error ''attachment unavailable'') \<and>
   observe (reduce asciiRuntime (AttachmentType :: string esType)) failingStore ''/images/my-image.png''
     = Inl (Error ''attachment unavailable'')"
proof -
  have "getLatestDocAtPath failingStore ''/images/my-image.png'' = Some claimingDoc \<and>
        \<not> endsWith ''/images/my-image.png'' ''/'' \<and>
        attachmentOf failingStore claimingDoc = AttachmentIsError (Error ''attachment unavailable'')"
    by (simp add: failingStore_def claimingDoc_def getLatestDocAtPath_def endsWith_def
        suffix_to_prefix)
  with attachment_reduce_outcomes
         [of asciiRuntime failingStore claimingDoc "[]" None "Error ''attachment unavailable''"
             "Attached [] [] :: string val" "''/images/my-image.png''"]
  show ?thesis by blast
qed

subsection \<open>C8: documents at keys the shape does not declare\<close>

text \<open>
  C8. The shape \<^verbatim>\<open>{ title: string }\<close> does not declare the key
  \<^verbatim>\<open>constructor\<close>, yet \<^verbatim>\<open>this.shape['constructor']\<close> is the inherited
  \<^verbatim>\<open>Object.prototype.constructor\<close>, which is truthy and has no \<^verbatim>\<open>reduce\<close>:
  for a document whose first path segment is \<^verbatim>\<open>constructor\<close> the reduce throws a
  \<^verbatim>\<open>TypeError\<close> instead of returning \<^verbatim>\<open>prev\<close>, and \<^verbatim>\<open>read\<close> of an
  object with such a document beneath it fails.
\<close>

theorem object_reduce_inherited_key_throws:
  "reduce js (ObjectType [(''title'', Some (Atom string))]) r d (''constructor'' # rest) prev
     = Inl (TypeError ''attrSchema.reduce is not a function'') \<and>
   read (reduce asciiRuntime (ObjectType [(''title'', Some (Atom string))]))
     (storeOf [plainDoc ''/someObject/title'' ''hello'',
               plainDoc ''/someObject/constructor'' ''x'']) ''/someObject''
     = Inl (TypeError ''attrSchema.reduce is not a function'')"
  by (simp add: shapeProperty_def attrKeyOf_def objectPrototypeKeys_def
      storeOf_def plainDoc_def read_def readDocs_def getContentPrefix_def
      stripTrailingSlash_def endsWith_def suffix_to_prefix getLatestDocAtPath_def queryDocs_def
      startsWith_def Let_def splitPath_def substring_def remainingPath_def
      Atom_reduce_def string_def getProperty_def spreadWith_def)

text \<open>
  For a key that is neither declared nor a member of \<^verbatim>\<open>Object.prototype\<close>, the
  previous value passes through.
\<close>

lemma object_reduce_unknown_key:
  "map_of shape (attrKeyOf pathComponents) = None
   \<Longrightarrow> attrKeyOf pathComponents \<notin> set objectPrototypeKeys
   \<Longrightarrow> reduce js (ObjectType shape) r d pathComponents prev = Inr prev"
  by (simp add: shapeProperty_def)

subsection \<open>C6: an event of an unrecognised format\<close>

lemma onMessage_unsupported_format:
  "lq_run lq = AwaitingRead
   \<Longrightarrow> event_kind event = ''success'' \<or> event_kind event = ''expire''
   \<Longrightarrow> doc_format (event_doc event) \<noteq> ''es.5''
   \<Longrightarrow> onMessage schemaReduce r lq (Value event) = lq\<lparr>lq_run := Returned\<rparr>"
  by (simp add: onMessage_def)

text \<open>
  C6. A live query over the string atom at \<^verbatim>\<open>/a\<close> with the snapshot
  \<^verbatim>\<open>x\<close> receives a \<^verbatim>\<open>success\<close> event whose document has the format
  \<^verbatim>\<open>es.4\<close>. \<^verbatim>\<open>run()\<close> returns and the snapshot stays \<^verbatim>\<open>x\<close>, also
  when a further event of the recognised format follows (which the view would otherwise
  take up), but the reader is still held: \<^verbatim>\<open>isClosed\<close> is false before and after,
  and a later \<^verbatim>\<open>subscribe\<close> therefore does not start \<^verbatim>\<open>run()\<close> again.
\<close>

theorem unsupported_format_leaves_view_open:
  "\<not> isClosed (newLiveQuery ''/a'' ''/a'' (Some ''x'')) \<and>
   \<not> isClosed (onMessage stringReduce (storeOf []) (newLiveQuery ''/a'' ''/a'' (Some ''x''))
                 (Value foreignEvent)) \<and>
   lq_run (onMessage stringReduce (storeOf []) (newLiveQuery ''/a'' ''/a'' (Some ''x''))
             (Value foreignEvent)) = Returned \<and>
   snapshot (onMessage stringReduce (storeOf []) (newLiveQuery ''/a'' ''/a'' (Some ''x''))
                (Value foreignEvent)) = Some ''x'' \<and>
   snapshot (onMessages stringReduce (storeOf []) (newLiveQuery ''/a'' ''/a'' (Some ''x''))
                [Value foreignEvent, Value nextEvent]) = Some ''x'' \<and>
   snapshot (onMessages stringReduce (storeOf []) (newLiveQuery ''/a'' ''/a'' (Some ''x''))
                [Value nextEvent]) = Some ''w'' \<and>
   lq_run (subscribe (onMessage stringReduce (storeOf []) (newLiveQuery ''/a'' ''/a'' (Some ''x''))
                        (Value foreignEvent)) 1) = Returned"
  by (simp add: isClosed_def newLiveQuery_def run_def onMessage_def onMessages_def foreignEvent_def
      nextEvent_def snapshot_def subscribe_def handleDoc_def loopAgain_def stringReduce_def
      Atom_reduce_def string_def plainDoc_def stripTrailingSlash_def endsWith_def suffix_to_prefix
      startsWith_def Let_def)

subsection \<open>C5: no empty object or collection\<close>

text \<open>
  Where the accumulated value has no key \<^verbatim>\<open>__proto__\<close>, the copy that
  \<^verbatim>\<open>Object.assign\<close> makes is a plain object with the properties set on it, and
  both reduces return \<^verbatim>\<open>null\<close> or an object that has a property.
\<close>

lemma assign_plain:
  "''__proto__'' \<notin> fst ` set source \<Longrightarrow> \<exists>kvs. assign (Obj own) source = Inr (Obj kvs)"
  by (induction source arbitrary: own) auto

lemma update_not_Nil: "AList.update k v kvs \<noteq> []"
  by (cases kvs) auto

lemma collapse_without_proto_key:
  assumes "ownProperties prev = Inr source" and "''__proto__'' \<notin> fst ` set source"
  shows "deleteKey prev key = Inr None \<or>
         (\<exists>kvs. kvs \<noteq> [] \<and> deleteKey prev key = Inr (Some (Obj kvs)))"
proof -
  from assign_plain [OF assms(2)] obtain kvs where "assign (Obj []) source = Inr (Obj kvs)"
    by blast
  with assms(1) show ?thesis
    by (cases "AList.delete key kvs = []") (simp_all add: deleteKey_def)
qed

lemma spreadWith_not_empty:
  "spreadWith prev key v = Inr result \<Longrightarrow> \<exists>kvs. kvs \<noteq> [] \<and> result = Some (Obj kvs)"
  by (auto simp: spreadWith_def update_not_Nil split: sum.splits)

lemma collection_reduce_collapses:
  assumes "ownProperties prev = Inr source" and "''__proto__'' \<notin> fst ` set source"
    and "reduce js (CollectionType valueType) r d pathComponents prev = Inr result"
  shows "result = None \<or> (\<exists>kvs. kvs \<noteq> [] \<and> result = Some (Obj kvs))"
proof -
  from assms(3) obtain key where
    "deleteKey prev key = Inr result \<or> (\<exists>v. spreadWith prev key v = Inr result)"
    by (auto split: sum.splits option.splits if_splits)
  then show ?thesis
  proof
    assume "deleteKey prev key = Inr result"
    with collapse_without_proto_key [OF assms(1,2), of key] show ?thesis by auto
  next
    assume "\<exists>v. spreadWith prev key v = Inr result"
    then show ?thesis by (auto dest: spreadWith_not_empty)
  qed
qed

lemma object_reduce_collapses:
  assumes "ownProperties prev = Inr source" and "''__proto__'' \<notin> fst ` set source"
    and "shapeProperty shape (attrKeyOf pathComponents) = Schema attrSchema"
    and "reduce js (ObjectType shape) r d pathComponents prev = Inr result"
  shows "result = None \<or> (\<exists>kvs. kvs \<noteq> [] \<and> result = Some (Obj kvs))"
proof -
  from assms(3,4) obtain key where
    "deleteKey prev key = Inr result \<or> (\<exists>v. spreadWith prev key v = Inr result)"
    by (auto split: sum.splits option.splits)
  then show ?thesis
  proof
    assume "deleteKey prev key = Inr result"
    with collapse_without_proto_key [OF assms(1,2), of key] show ?thesis by auto
  next
    assume "\<exists>v. spreadWith prev key v = Inr result"
    then show ?thesis by (auto dest: spreadWith_not_empty)
  qed
qed

text \<open>
  C5. A collection of objects is read from two documents: one with the text
  \<^verbatim>\<open>1\<close> at \<^verbatim>\<open>/c/__proto__/dictProp\<close> and a wiped one (its text is empty) at
  \<^verbatim>\<open>/c/x/dictProp\<close>. The first gives the collection the own key
  \<^verbatim>\<open>__proto__\<close>. At the second, \<^verbatim>\<open>Object.assign({}, prev)\<close> sets that key
  on the copy, which makes its value the prototype of the copy and leaves the copy
  without an own property; \<^verbatim>\<open>isEmptyObject\<close> still finds the inherited
  \<^verbatim>\<open>dictProp\<close>, so the copy is returned and not \<^verbatim>\<open>null\<close>. What
  \<^verbatim>\<open>reduce\<close> and \<^verbatim>\<open>read\<close> return is an object that has no own property: an
  empty map.
\<close>

theorem reduce_returns_object_without_properties:
  "reduce asciiRuntime (dict (ObjectType dictPropShape)) protoStore
      (plainDoc ''/c/__proto__/dictProp'' ''1'') [''__proto__'', ''dictProp''] None
     = Inr (Some (Obj [(''__proto__'', Some (Obj [(''dictProp'', Some (Atomic ''1''))]))])) \<and>
   reduce asciiRuntime (dict (ObjectType dictPropShape)) protoStore
      (plainDoc ''/c/x/dictProp'' []) [''x'', ''dictProp'']
      (Some (Obj [(''__proto__'', Some (Obj [(''dictProp'', Some (Atomic ''1''))]))]))
     = Inr (Some (Inheriting [] (Some (Obj [(''dictProp'', Some (Atomic ''1''))])))) \<and>
   read (reduce asciiRuntime (dict (ObjectType dictPropShape))) protoStore ''/c''
     = Inr (Some (Inheriting [] (Some (Obj [(''dictProp'', Some (Atomic ''1''))])))) \<and>
   ownProperties (Some (Inheriting [] (Some (Obj [(''dictProp'', Some (Atomic ''1''))]))))
     = Inr ([] :: (string \<times> string val option) list)"
  by (simp add: dict_def dictPropShape_def protoStore_def storeOf_def plainDoc_def
      asciiRuntime_def rawKeyOf_def attrKeyOf_def remainingPath_def shapeProperty_def
      getProperty_def deleteKey_def spreadWith_def Atom_reduce_def string_def
      read_def readDocs_def getContentPrefix_def stripTrailingSlash_def endsWith_def
      suffix_to_prefix getLatestDocAtPath_def queryDocs_def startsWith_def splitPath_def
      substring_def Let_def)

subsection \<open>C3: writing null through an object or a collection\<close>

text \<open>What a wipe does to the latest document at each path.\<close>

lemma find_path_upsert:
  "find (\<lambda>x. doc_path x = q) (upsert d ds) =
     (if q = doc_path d then Some d else find (\<lambda>x. doc_path x = q) ds)"
  by (induction ds) auto

lemma getLatestDocAtPath_path:
  "getLatestDocAtPath r p = Some d \<Longrightarrow> doc_path d = p"
  by (auto simp: getLatestDocAtPath_def find_Some_iff)

lemma map_path_upsert:
  "doc_path d \<in> doc_path ` set ds \<Longrightarrow> map doc_path (upsert d ds) = map doc_path ds"
  by (induction ds) auto

lemma getLatestDocAtPath_mem:
  "getLatestDocAtPath r p = Some d \<Longrightarrow> d \<in> set (docs r)"
  by (auto simp: getLatestDocAtPath_def find_Some_iff)

lemma getLatestDocAtPath_None_iff:
  "getLatestDocAtPath r p = None \<longleftrightarrow> p \<notin> doc_path ` set (docs r)"
  by (auto simp: getLatestDocAtPath_def find_None_iff)

lemma wiped_path [simp]: "doc_path (wiped author d) = doc_path d"
  by (simp add: wiped_def)

lemma wiped_wiped [simp]: "wiped author (wiped author d) = wiped author d"
  by (simp add: wiped_def)

lemma wipeDocAtPath_lookup:
  "getLatestDocAtPath (snd (wipeDocAtPath r author p)) q =
     (if q = p \<and> refuses r author p = None
      then map_option (wiped author) (getLatestDocAtPath r q)
      else getLatestDocAtPath r q)"
proof (cases "getLatestDocAtPath r p")
  case None
  then show ?thesis by (simp add: wipeDocAtPath_def)
next
  case (Some d)
  then have "doc_path d = p" by (rule getLatestDocAtPath_path)
  with Some show ?thesis
    by (auto simp: wipeDocAtPath_def getLatestDocAtPath_def find_path_upsert split: option.splits)
qed

lemma wipeDocAtPath_refuses [simp]:
  "refuses (snd (wipeDocAtPath r author p)) = refuses r"
  by (simp add: wipeDocAtPath_def split: option.splits)

lemma wipeDocAtPath_paths [simp]:
  "map doc_path (docs (snd (wipeDocAtPath r author p))) = map doc_path (docs r)"
proof (cases "getLatestDocAtPath r p")
  case None
  then show ?thesis by (simp add: wipeDocAtPath_def)
next
  case (Some d)
  then have "doc_path d = p" "d \<in> set (docs r)"
    by (auto dest: getLatestDocAtPath_path getLatestDocAtPath_mem)
  then have "doc_path (wiped author d) \<in> doc_path ` set (docs r)" by auto
  with Some show ?thesis
    by (simp add: wipeDocAtPath_def map_path_upsert split: option.splits)
qed

lemma wipeAll_refuses [simp]: "refuses (wipeAll r author ps) = refuses r"
  by (induction ps arbitrary: r) (simp_all add: wipeAll_def)

lemma wipeAll_paths [simp]: "map doc_path (docs (wipeAll r author ps)) = map doc_path (docs r)"
  by (induction ps arbitrary: r) (simp_all add: wipeAll_def)

lemma wipeAll_Cons:
  "wipeAll r author (p # ps) = wipeAll (snd (wipeDocAtPath r author p)) author ps"
  by (simp add: wipeAll_def)

lemma wipeAll_lookup:
  "getLatestDocAtPath (wipeAll r author ps) q =
     (if q \<in> set ps \<and> refuses r author q = None
      then map_option (wiped author) (getLatestDocAtPath r q)
      else getLatestDocAtPath r q)"
proof (induction ps arbitrary: r)
  case Nil
  then show ?case by (simp add: wipeAll_def)
next
  case (Cons p ps)
  show ?case
    unfolding wipeAll_Cons Cons.IH
    by (cases "getLatestDocAtPath r q")
       (auto simp: wipeDocAtPath_lookup option.map_comp comp_def)
qed

lemma queryPaths_prefix_set:
  "q \<in> set (queryPaths r \<lparr>pathStartsWith = Some s, pathEndsWith = None\<rparr>) \<longleftrightarrow>
     startsWith q s \<and> getLatestDocAtPath r q \<noteq> None"
  by (auto simp: queryPaths_def matchesFilter_def getLatestDocAtPath_None_iff)

lemma wipeDocsUnderPath_lookup:
  "getLatestDocAtPath (wipeDocsUnderPath r author p) q =
     (if (q = p \<or> startsWith q (p @ ''/'')) \<and> refuses r author q = None
      then map_option (wiped author) (getLatestDocAtPath r q)
      else getLatestDocAtPath r q)"
  unfolding wipeDocsUnderPath_def Let_def wipeAll_lookup
  by (cases "getLatestDocAtPath r q") (auto simp: queryPaths_prefix_set)

lemma wipeDocsUnderPath_paths [simp]:
  "map doc_path (docs (wipeDocsUnderPath r author p)) = map doc_path (docs r)"
  by (simp add: wipeDocsUnderPath_def Let_def)

text \<open>
  C3, as the claim states it, fails on a replica that refuses the author's wipes:
  \<^verbatim>\<open>write\<close> of an object, and of a collection, with \<^verbatim>\<open>null\<close> is fulfilled
  and the replica is the one it was; the documents at the path and under it keep their
  texts. \<^verbatim>\<open>wipeDocsUnderPath\<close> discards the outcomes of its wipes.
\<close>

theorem null_write_refused_counterexample:
  "writeNode asciiRuntime (ObjectType titledShape) refusingStore ''@me'' ''/someObject'' None
     = (Fulfilled, refusingStore) \<and>
   writeNode asciiRuntime (CollectionType (Atom string)) refusingStore ''@me'' ''/someObject'' None
     = (Fulfilled, refusingStore) \<and>
   getLatestDocAtPath refusingStore ''/someObject''
     = Some (plainDoc ''/someObject'' ''hello'') \<and>
   getLatestDocAtPath refusingStore ''/someObject/title''
     = Some (plainDoc ''/someObject/title'' ''SomeObject'')"
  by (simp add: refusingStore_def plainDoc_def wipeDocsUnderPath_def wipeAll_def
      wipeDocAtPath_def queryPaths_def matchesFilter_def startsWith_def
      getLatestDocAtPath_def Let_def)

text \<open>
  C3, amended. \<^verbatim>\<open>write\<close> of an object or of a collection with \<^verbatim>\<open>null\<close> is
  fulfilled and leaves the replica that \<^verbatim>\<open>wipeDocsUnderPath\<close> leaves: the latest
  document at the path itself and at every stored path that starts with the path followed
  by a slash is wiped (its text is empty) where the replica accepts the author's wipe at
  that path, and stays as it was where the replica refuses it; the latest document at
  every other path is the one it was, and no path is added or removed.
\<close>

theorem null_write_wipes_subtree:
  "writeNode js (ObjectType shape) r author p None = (Fulfilled, wipeDocsUnderPath r author p) \<and>
   writeNode js (CollectionType valueType) r author p None
     = (Fulfilled, wipeDocsUnderPath r author p) \<and>
   getLatestDocAtPath (wipeDocsUnderPath r author p) q =
     (if (q = p \<or> startsWith q (p @ ''/'')) \<and> refuses r author q = None
      then map_option (wiped author) (getLatestDocAtPath r q)
      else getLatestDocAtPath r q) \<and>
   map doc_path (docs (wipeDocsUnderPath r author p)) = map doc_path (docs r)"
  by (simp add: wipeDocsUnderPath_lookup)

theorem null_write_wipes_subtree_witness:
  "getLatestDocAtPath
     (snd (writeNode asciiRuntime (ObjectType titledShape) someObjectStore ''@me'' ''/someObject'' None))
     ''/someObject'' = Some (plainDoc ''/someObject'' []) \<and>
   getLatestDocAtPath
     (snd (writeNode asciiRuntime (ObjectType titledShape) someObjectStore ''@me'' ''/someObject'' None))
     ''/someObject/title'' = Some (plainDoc ''/someObject/title'' []) \<and>
   getLatestDocAtPath
     (snd (writeNode asciiRuntime (ObjectType titledShape) someObjectStore ''@me'' ''/someObject'' None))
     ''/someObjectX'' = Some (plainDoc ''/someObjectX'' ''other'')"
  using null_write_wipes_subtree
          [of asciiRuntime titledShape someObjectStore "''@me''" "''/someObject''" _ "''/someObject''"]
        null_write_wipes_subtree
          [of asciiRuntime titledShape someObjectStore "''@me''" "''/someObject''" _
              "''/someObject/title''"]
        null_write_wipes_subtree
          [of asciiRuntime titledShape someObjectStore "''@me''" "''/someObject''" _
              "''/someObjectX''"]
  by (simp add: someObjectStore_def storeOf_def plainDoc_def getLatestDocAtPath_def
      startsWith_def wiped_def)

subsection \<open>C4: what a partial object write touches\<close>

lemma replica_set_lookup:
  "getLatestDocAtPath (snd (replica_set r author input)) q =
     (if refuses r author (set_path input) = None \<and> q = set_path input
      then Some \<lparr>doc_format = ''es.5'', doc_path = set_path input, doc_text = set_text input,
                 doc_author = author,
                 doc_attachmentSize = map_option length (set_attachment input)\<rparr>
      else getLatestDocAtPath r q)"
  by (auto simp: replica_set_def getLatestDocAtPath_def find_path_upsert split: option.splits)

lemma replica_set_frame:
  "q \<noteq> set_path input
   \<Longrightarrow> getLatestDocAtPath (snd (replica_set r author input)) q = getLatestDocAtPath r q"
  by (simp add: replica_set_lookup)

lemma Atom_write_frame:
  "q \<noteq> p \<Longrightarrow> getLatestDocAtPath (snd (Atom_write c r author p data)) q = getLatestDocAtPath r q"
  by (simp add: Atom_write_def split_def Let_def replica_set_frame split: sum.splits)

lemma Attachment_write_frame:
  "q \<noteq> p
   \<Longrightarrow> getLatestDocAtPath (snd (Attachment_write r author p data)) q = getLatestDocAtPath r q"
  by (simp add: Attachment_write_def split_def Let_def replica_set_frame wipeDocAtPath_lookup
           split: option.splits)

lemma write_frame:
  fixes t :: "'a esType" and shape :: "(string \<times> 'a esType option) list"
    and valueType :: "'a esType"
  shows "\<not> touches js t p data q \<Longrightarrow>
     getLatestDocAtPath (snd (writeNode js t r author p data)) q = getLatestDocAtPath r q"
  and "(\<And>key t v. (key, Some t) \<in> set shape \<Longrightarrow> dataProperty kvs key = Some v
               \<Longrightarrow> \<not> touches js t (nextPath p key) v q) \<Longrightarrow>
     getLatestDocAtPath (snd (writeShape js shape r author p kvs)) q = getLatestDocAtPath r q"
  and "(\<And>key v. (key, v) \<in> set entries
               \<Longrightarrow> \<not> touches js valueType (p @ ''/'' @ encodeURIComponent js key) v q) \<Longrightarrow>
     getLatestDocAtPath (snd (writeEntries js valueType r author p entries)) q
       = getLatestDocAtPath r q"
proof (induction js t r author p data and js shape r author p kvs
         and js valueType r author p entries
       rule: writeNode_writeShape_writeEntries.induct)
  case (1 js c r author p data)
  then show ?case
    by (simp add: Atom_write_frame split_def Let_def split: option.splits val.splits)
next
  case (2 js r author p data)
  then show ?case
    by (simp add: Attachment_write_frame split: option.splits val.splits)
next
  case (3 js r author p data)
  then show ?case
    by (simp add: Attachment_write_frame split: option.splits val.splits)
next
  case (4 js f r author p data)
  then show ?case by simp
next
  case (5 js shape r author p data)
  show ?case
  proof (cases data)
    case None
    with "5.prems" show ?thesis by (simp add: wipeDocsUnderPath_lookup)
  next
    case (Some x)
    show ?thesis
    proof (cases x)
      case (Obj kvs)
      have "getLatestDocAtPath (snd (writeShape js shape r author p kvs)) q = getLatestDocAtPath r q"
      proof (rule "5.IH" [OF Some Obj])
        fix key t v
        assume "(key, Some t) \<in> set shape" "dataProperty kvs key = Some v"
        with "5.prems" Some Obj show "\<not> touches js t (nextPath p key) v q"
          by (auto simp: list_ex_iff)
      qed
      with Some Obj show ?thesis by (simp add: split_def)
    qed (use Some "5.prems" in simp_all)
  qed
next
  case (6 js valueType r author p data)
  show ?case
  proof (cases data)
    case None
    with "6.prems" show ?thesis by (simp add: wipeDocsUnderPath_lookup)
  next
    case (Some x)
    show ?thesis
    proof (cases x)
      case (Obj kvs)
      have "getLatestDocAtPath (snd (writeEntries js valueType r author p kvs)) q
              = getLatestDocAtPath r q"
      proof (rule "6.IH"(1) [OF Some Obj])
        fix key v
        assume "(key, v) \<in> set kvs"
        with "6.prems" Some Obj
        show "\<not> touches js valueType (p @ ''/'' @ encodeURIComponent js key) v q"
          by (auto simp: list_ex_iff)
      qed
      with Some Obj show ?thesis by (simp add: split_def)
    next
      case (Inheriting kvs proto)
      have "getLatestDocAtPath (snd (writeEntries js valueType r author p kvs)) q
              = getLatestDocAtPath r q"
      proof (rule "6.IH"(2) [OF Some Inheriting])
        fix key v
        assume "(key, v) \<in> set kvs"
        with "6.prems" Some Inheriting
        show "\<not> touches js valueType (p @ ''/'' @ encodeURIComponent js key) v q"
          by (auto simp: list_ex_iff)
      qed
      with Some Inheriting show ?thesis by (simp add: split_def)
    qed (use Some "6.prems" in simp_all)
  qed
next
  case (7 js schema format prefix' r author p data)
  then show ?case by simp
next
  case (8 js r author p kvs)
  then show ?case by simp
next
  case (9 js key attr shape r author p kvs)
  have rest: "\<And>k t v. (k, Some t) \<in> set shape \<Longrightarrow> dataProperty kvs k = Some v
               \<Longrightarrow> \<not> touches js t (nextPath p k) v q"
    using "9.prems" by auto
  show ?case
  proof (cases attr)
    case None
    with "9.IH"(1) [OF None rest] show ?thesis by simp
  next
    case (Some t)
    show ?thesis
    proof (cases "dataProperty kvs key")
      case None
      with "9.IH"(2) [OF Some None rest] Some show ?thesis by simp
    next
      case (Some v)
      note v = Some
      have here: "\<not> touches js t (nextPath p key) v q"
        using "9.prems" [of key t v] \<open>attr = Some t\<close> v by simp
      obtain c r1 where w: "writeNode js t r author (nextPath p key) v = (c, r1)"
        by (cases "writeNode js t r author (nextPath p key) v")
      have first: "getLatestDocAtPath r1 q = getLatestDocAtPath r q"
        using "9.IH"(3) [OF \<open>attr = Some t\<close> v here] w by simp
      show ?thesis
      proof (cases "\<exists>e. c = Threw e")
        case True
        with \<open>attr = Some t\<close> v w first show ?thesis by auto
      next
        case False
        then have "getLatestDocAtPath (snd (writeShape js shape r1 author p kvs)) q
                     = getLatestDocAtPath r1 q"
          using "9.IH"(4) [OF \<open>attr = Some t\<close> v w [symmetric] _ rest]
                "9.IH"(5) [OF \<open>attr = Some t\<close> v w [symmetric] _ rest]
          by (cases c) auto
        with False \<open>attr = Some t\<close> v w first show ?thesis
          by (cases c) (auto simp: split_def)
      qed
    qed
  qed
next
  case (10 js valueType r author p)
  then show ?case by simp
next
  case (11 js valueType r author p key v kvs)
  have rest: "\<And>k v'. (k, v') \<in> set kvs
               \<Longrightarrow> \<not> touches js valueType (p @ ''/'' @ encodeURIComponent js k) v' q"
    using "11.prems" by auto
  have here: "\<not> touches js valueType (p @ ''/'' @ encodeURIComponent js key) v q"
    using "11.prems" [of key v] by simp
  obtain c r1 where w: "writeNode js valueType r author (p @ ''/'' @ encodeURIComponent js key) v
                          = (c, r1)"
    by (cases "writeNode js valueType r author (p @ ''/'' @ encodeURIComponent js key) v")
  have first: "getLatestDocAtPath r1 q = getLatestDocAtPath r q"
    using "11.IH"(1) [OF here] w by simp
  show ?case
  proof (cases "\<exists>e. c = Threw e")
    case True
    with w first show ?thesis by auto
  next
    case False
    then have "getLatestDocAtPath (snd (writeEntries js valueType r1 author p kvs)) q
                 = getLatestDocAtPath r1 q"
      using "11.IH"(2) [OF w [symmetric] _ rest] "11.IH"(3) [OF w [symmetric] _ rest]
      by (cases c) auto
    with False w first show ?thesis
      by (cases c) (auto simp: split_def)
  qed
qed

lemma writeShape_absent:
  "(\<And>k attr. (k, attr) \<in> set shape \<Longrightarrow> dataProperty kvs k = None)
   \<Longrightarrow> writeShape js shape r author p kvs = (Fulfilled, r)"
proof (induction shape)
  case Nil
  then show ?case by simp
next
  case (Cons entry shape)
  obtain k attr where entry: "entry = (k, attr)" by (cases entry)
  have "dataProperty kvs k = None" using Cons.prems [of k attr] entry by simp
  moreover have "writeShape js shape r author p kvs = (Fulfilled, r)"
    using Cons.prems by (intro Cons.IH) auto
  ultimately show ?case using entry by (cases attr) simp_all
qed

lemma dataProperty_single:
  "dataProperty [(key, v)] k =
     (if k = key then Some v
      else if k \<in> set objectPrototypeKeys then Some (Some (Builtin k)) else None)"
  by (simp add: dataProperty_def)

lemma writeShape_single:
  "distinct (map fst shape) \<Longrightarrow> (key, Some t) \<in> set shape
   \<Longrightarrow> \<forall>k \<in> fst ` set shape. k = key \<or> k \<notin> set objectPrototypeKeys
   \<Longrightarrow> snd (writeShape js shape r author p [(key, v)])
         = snd (writeNode js t r author (nextPath p key) v)"
proof (induction shape)
  case Nil
  then show ?case by simp
next
  case (Cons entry shape)
  obtain k attr where entry: "entry = (k, attr)" by (cases entry)
  have others: "\<forall>k \<in> fst ` set shape. k = key \<or> k \<notin> set objectPrototypeKeys"
    using Cons.prems(3) by auto
  show ?case
  proof (cases "k = key")
    case True
    with Cons.prems entry have attr: "attr = Some t" and fresh: "key \<notin> fst ` set shape"
      by (auto simp: image_iff)
    obtain c r1 where w: "writeNode js t r author (nextPath p key) v = (c, r1)"
      by (cases "writeNode js t r author (nextPath p key) v")
    have "writeShape js shape r1 author p [(key, v)] = (Fulfilled, r1)"
    proof (rule writeShape_absent)
      fix k' attr'
      assume "(k', attr') \<in> set shape"
      then have "k' \<in> fst ` set shape" by force
      with fresh others have "k' \<noteq> key" "k' \<notin> set objectPrototypeKeys" by auto
      then show "dataProperty [(key, v)] k' = None" by (simp add: dataProperty_single)
    qed
    with True entry attr w show ?thesis by (cases c) (simp_all add: dataProperty_single)
  next
    case False
    with Cons.prems entry have "(key, Some t) \<in> set shape" "distinct (map fst shape)" by auto
    with Cons.IH others have ih: "snd (writeShape js shape r author p [(key, v)])
         = snd (writeNode js t r author (nextPath p key) v)" by simp
    have "k \<notin> set objectPrototypeKeys" using Cons.prems(3) entry False by auto
    with False have "dataProperty [(key, v)] k = None" by (simp add: dataProperty_single)
    with ih entry show ?thesis by (cases attr) simp_all
  qed
qed

text \<open>
  A declared key that names a member of \<^verbatim>\<open>Object.prototype\<close> is present in every
  plain object: the input \<^verbatim>\<open>{ title: 'x' }\<close> has no property
  \<^verbatim>\<open>constructor\<close> of its own, yet the metadata field at that key is written, and
  the write is rejected.
\<close>

lemma inherited_member_is_written:
  "writeNode asciiRuntime
     (ObjectType [(''title'', Some (Atom string)), (''constructor'', Some (MetadataType pathOfDoc))])
     (storeOf []) ''@me'' ''/p'' (Some (Obj [(''title'', Some (Atomic ''x''))]))
   = (Rejected (Error ''Attempted to write to a read-only metadata value''),
      storeOf [plainDoc ''/p/title'' ''x''])"
  by (simp add: dataProperty_def objectPrototypeKeys_def nextPath_def SELF_SIGIL_def
      Atom_write_def replica_set_def string_def storeOf_def plainDoc_def Let_def)

text \<open>A format wrapper writes under its own absolute path, not under the field's.\<close>

lemma integerToString_examples:
  "integerToString (Finite 1) = ''1''"
  "integerToString (Finite 0) = ''0''"
  "integerToString (Finite (- 12)) = ''-12''"
  by code_simp+


lemma format_wrapper_writes_under_its_path:
  "docs (snd (writeNode asciiRuntime (ObjectType archivedShape) (storeOf []) ''@me'' ''/someObject''
                (Some (Obj [(''archive'', Some (Atomic ''v''))]))))
   = [plainDoc ''/app/1.0/someObject/archive'' ''v'']"
  by (simp add: archivedShape_def archiveFormat_def dataProperty_def objectPrototypeKeys_def
      nextPath_def SELF_SIGIL_def formatPath_def splitPath_def asciiRuntime_def
      integerToString_examples
      Atom_write_def replica_set_def string_def storeOf_def plainDoc_def Let_def)

text \<open>
  C4, as the claim states it, fails. The shape
  \<^verbatim>\<open>{ '@self': dict(string), title: string }\<close> declares \<^verbatim>\<open>title\<close>, whose
  document lies at \<^verbatim>\<open>/p/title\<close>. Writing \<^verbatim>\<open>{ '@self': null }\<close> at \<^verbatim>\<open>/p\<close>
  leaves \<^verbatim>\<open>title\<close> out of the input, yet its document is wiped: the field
  \<^verbatim>\<open>@self\<close> is written at \<^verbatim>\<open>/p\<close> itself, and the null write of a collection
  wipes everything under its path.
\<close>

theorem object_write_absent_field_counterexample:
  "dataProperty [(''@self'', None :: string val option)] ''title'' = None \<and>
   getLatestDocAtPath (storeOf [plainDoc ''/p/title'' ''T'']) ''/p/title''
     = Some (plainDoc ''/p/title'' ''T'') \<and>
   getLatestDocAtPath
     (snd (writeNode asciiRuntime (ObjectType selfDictShape) (storeOf [plainDoc ''/p/title'' ''T''])
             ''@me'' ''/p'' (Some (Obj [(''@self'', None)]))))
     ''/p/title'' = Some (plainDoc ''/p/title'' [])"
  by (simp add: selfDictShape_def dict_def storeOf_def plainDoc_def getLatestDocAtPath_def
      nextPath_def SELF_SIGIL_def wipeDocsUnderPath_def wipeAll_def wipeDocAtPath_def
      queryPaths_def matchesFilter_def startsWith_def wiped_def Let_def
      dataProperty_def objectPrototypeKeys_def)

text \<open>
  C4, amended. A write of an object with a value that is not \<^verbatim>\<open>null\<close> leaves the
  latest document at a path \<open>q\<close> as it was whenever no declared field that is present in
  the input addresses \<open>q\<close>. A field is present when \<^verbatim>\<open>data[key]\<close> is not
  \<^verbatim>\<open>undefined\<close>: the input has a property of that name, or the key names a member
  of \<^verbatim>\<open>Object.prototype\<close>, which the input inherits. What the write of a field
  addresses is told by \<open>touches\<close> at the field's path, the object's own path for
  \<^verbatim>\<open>@self\<close>. So the documents of a field that is absent from the input are
  unchanged unless a field that is present addresses them. A field set to \<^verbatim>\<open>null\<close>,
  alone in the input of an object whose other keys are none of the names of the members
  of \<^verbatim>\<open>Object.prototype\<close>, does to the replica what the \<^verbatim>\<open>null\<close> write of
  that field's node at the field's path does.
\<close>

theorem object_write_frame:
  "((\<forall>key t v. (key, Some t) \<in> set shape \<and> dataProperty kvs key = Some v
               \<longrightarrow> \<not> touches js t (nextPath p key) v q) \<longrightarrow>
      getLatestDocAtPath (snd (writeNode js (ObjectType shape) r author p (Some (Obj kvs)))) q
        = getLatestDocAtPath r q) \<and>
   (distinct (map fst shape) \<and> (key, Some t) \<in> set shape \<and>
    (\<forall>k \<in> fst ` set shape. k = key \<or> k \<notin> set objectPrototypeKeys) \<longrightarrow>
      snd (writeNode js (ObjectType shape) r author p (Some (Obj [(key, None)])))
        = snd (writeNode js t r author (nextPath p key) None))"
proof (intro conjI impI)
  assume "\<forall>key t v. (key, Some t) \<in> set shape \<and> dataProperty kvs key = Some v
            \<longrightarrow> \<not> touches js t (nextPath p key) v q"
  then have "getLatestDocAtPath (snd (writeShape js shape r author p kvs)) q
               = getLatestDocAtPath r q"
    by (intro write_frame(2)) blast
  then show "getLatestDocAtPath (snd (writeNode js (ObjectType shape) r author p (Some (Obj kvs)))) q
        = getLatestDocAtPath r q"
    by (simp add: split_def)
next
  assume "distinct (map fst shape) \<and> (key, Some t) \<in> set shape \<and>
    (\<forall>k \<in> fst ` set shape. k = key \<or> k \<notin> set objectPrototypeKeys)"
  then have "snd (writeShape js shape r author p [(key, None)])
         = snd (writeNode js t r author (nextPath p key) None)"
    by (intro writeShape_single) auto
  then show "snd (writeNode js (ObjectType shape) r author p (Some (Obj [(key, None)])))
        = snd (writeNode js t r author (nextPath p key) None)"
    by (simp add: split_def)
qed

theorem object_write_frame_witness:
  "getLatestDocAtPath
     (snd (writeNode asciiRuntime (ObjectType titledShape) someObjectStore ''@me'' ''/someObject''
             (Some (Obj [(''title'', Some (Atomic ''changed''))]))))
     ''/someObject'' = Some (plainDoc ''/someObject'' ''hello'') \<and>
   docs (snd (writeNode asciiRuntime (ObjectType titledShape) someObjectStore ''@me'' ''/someObject''
             (Some (Obj [(''@self'', None)]))))
     = [plainDoc ''/someObject'' [], plainDoc ''/someObject/title'' ''SomeObject'',
        plainDoc ''/someObjectX'' ''other'']"
proof -
  have h1: "\<forall>key t v. (key, Some t) \<in> set titledShape \<and>
                    dataProperty [(''title'', Some (Atomic ''changed''))] key = Some v
               \<longrightarrow> \<not> touches asciiRuntime t (nextPath ''/someObject'' key) v ''/someObject''"
    by (auto simp: titledShape_def nextPath_def SELF_SIGIL_def dataProperty_def
          objectPrototypeKeys_def)
  have h2: "distinct (map fst titledShape) \<and> (''@self'', Some (Atom string)) \<in> set titledShape \<and>
            (\<forall>k \<in> fst ` set titledShape. k = ''@self'' \<or> k \<notin> set objectPrototypeKeys)"
    by (simp add: titledShape_def objectPrototypeKeys_def)
  from object_write_frame
         [of titledShape "[(''title'', Some (Atomic ''changed''))]" asciiRuntime "''/someObject''"
             "''/someObject''" someObjectStore "''@me''" "''@self''" "Atom string"]
       h1 h2
  show ?thesis
    by (simp add: someObjectStore_def storeOf_def plainDoc_def getLatestDocAtPath_def
        nextPath_def SELF_SIGIL_def Atom_write_def replica_set_def string_def Let_def)
qed

subsection \<open>C2: writing an atom and reading it back\<close>




































text \<open>The date-time strings of some time values, and one read back.\<close>

lemma isoString_epoch: "isoString 0 = ''1970-01-01T00:00:00.000Z''"
  by code_simp

lemma isoString_before_epoch: "isoString (- 1) = ''1969-12-31T23:59:59.999Z''"
  by code_simp

lemma isoString_leap_day: "isoString 951782400000 = ''2000-02-29T00:00:00.000Z''"
  by code_simp

lemma isoString_expanded_year: "isoString (- 62198755200000) = ''-000001-01-01T00:00:00.000Z''"
  by code_simp

lemma parseIsoString_epoch: "parseIsoString ''1970-01-01T00:00:00.000Z'' = Some (Date 0)"
  by code_simp

text \<open>
  The negative zero is written as \<^verbatim>\<open>0\<close>, which reads back as the positive zero.
\<close>

lemma negative_zero_reads_back_positive:
  "writeThenRead (number asciiRuntime) (storeOf []) ''@me'' ''/someObject'' NegativeZero
     = (Inr (), Inr (Some (Finite 0)))"
proof -
  have "stringToInteger ''0'' = Finite 0" by code_simp
  then show ?thesis
    by (simp add: writeThenRead_def Atom_write_def Atom_read_def Atom_reduce_def number_def
        asciiRuntime_def integerToString_def
        replica_set_def storeOf_def read_def readDocs_def getContentPrefix_def
        stripTrailingSlash_def endsWith_def suffix_to_prefix getLatestDocAtPath_def queryDocs_def
        startsWith_def Let_def)
qed




end
